theory Spec2Isabelle
  imports Main
begin

section \<open>Python values, exceptions and effects\<close>

text \<open>
  The plugin exists in two copies:
  \<^item> \<^verbatim>\<open>src/lrclib_lyrics_external_save/__init__.py\<close> (version 1.1.1, with a worker thread),
  \<^item> \<^verbatim>\<open>src/plugins/lrclib_lyrics_external_save.py\<close> (version 1.0.0, without one).
  Functions of the first copy keep their names; functions of the second copy that share a
  name with the first carry the suffix \<open>_v1_0\<close>.

  A Python \<open>str\<close> is a \<open>string\<close>: a list of code points below 256. An exception is a
  value of \<open>pyexn\<close>; every constructor stands for a subclass of Python's \<open>Exception\<close>, the
  class that each \<^verbatim>\<open>except Exception\<close> of the source catches.
\<close>

datatype pyexn =
    ValueError | TypeError | AttributeError | UnicodeError | OSError | URLError
  | TimeoutError | JSONDecodeError | RuntimeError | OtherException string

text \<open>
  What \<^verbatim>\<open>json.loads\<close> can return. A float is \<open>m * 2 ^ e\<close>, an infinity or a NaN; only
  its truth value is ever inspected. A \<open>dict\<close> is an association list read by \<open>map_of\<close>.
\<close>

datatype pyfloat = Finite int int | Infinity bool | NaN

datatype pyval =
    PyNone
  | PyBool bool
  | PyInt int
  | PyFloat pyfloat
  | PyStr string
  | PyList "pyval list"
  | PyDict "(string \<times> pyval) list"

fun float_nonzero :: "pyfloat \<Rightarrow> bool" where
  "float_nonzero (Finite m e) = (m \<noteq> 0)"
| "float_nonzero (Infinity s) = True"
| "float_nonzero NaN = True"

text \<open>Python's truth value of an object (\<^verbatim>\<open>if x:\<close>).\<close>

fun truthy :: "pyval \<Rightarrow> bool" where
  "truthy PyNone = False"
| "truthy (PyBool b) = b"
| "truthy (PyInt i) = (i \<noteq> 0)"
| "truthy (PyFloat f) = float_nonzero f"
| "truthy (PyStr s) = (s \<noteq> [])"
| "truthy (PyList xs) = (xs \<noteq> [])"
| "truthy (PyDict kvs) = (kvs \<noteq> [])"

text \<open>\<^verbatim>\<open>len(x)\<close>: defined on strings, lists and dicts, a \<open>TypeError\<close> on everything else.\<close>

fun py_len :: "pyval \<Rightarrow> pyexn + nat" where
  "py_len (PyStr s) = Inr (length s)"
| "py_len (PyList xs) = Inr (length xs)"
| "py_len (PyDict kvs) = Inr (length kvs)"
| "py_len v = Inl TypeError"

text \<open>\<^verbatim>\<open>d.get(k)\<close> on a dict: the value, or \<open>None\<close> for a missing key.\<close>

definition dict_get :: "(string \<times> pyval) list \<Rightarrow> string \<Rightarrow> pyval" where
  "dict_get kvs k = (case map_of kvs k of None \<Rightarrow> PyNone | Some v \<Rightarrow> v)"

text \<open>Truth value of a metadata field: a string, or \<open>None\<close> when the tag is absent.\<close>

fun truthy_str :: "string option \<Rightarrow> bool" where
  "truthy_str None = False"
| "truthy_str (Some s) = (s \<noteq> [])"

subsection \<open>The world: file system and trace of effects\<close>

datatype level = INFO | WARNING | ERROR

type_synonym snapshot = "string \<Rightarrow> string option"

text \<open>
  Every observable action appends an event to the trace of the thread that performs it.
  A log call records its level and the exception it reports, if any (the message text is
  advisory). \<open>ThreadStart p s d\<close> is \<^verbatim>\<open>threading.Thread(target=_worker_for_file,
  args=(p, s), daemon=d).start()\<close>.
\<close>

datatype event =
    Log level "pyexn option"
  | HttpGet string nat
  | FileOpen string
  | FileWrite string
  | ThreadStart string snapshot bool

record world =
  fs :: "string \<Rightarrow> string option"
  trace :: "event list"

type_synonym 'a action = "world \<Rightarrow> (pyexn + 'a) \<times> world"

definition ret :: "'a \<Rightarrow> 'a action" where
  "ret x = (\<lambda>w. (Inr x, w))"

definition raise :: "pyexn \<Rightarrow> 'a action" where
  "raise e = (\<lambda>w. (Inl e, w))"

text \<open>A pure computation that may raise.\<close>

definition lift :: "pyexn + 'a \<Rightarrow> 'a action" where
  "lift r = (\<lambda>w. (r, w))"

text \<open>Sequencing: an exception of the first statement skips the rest.\<close>

definition bnd :: "'a action \<Rightarrow> ('a \<Rightarrow> 'b action) \<Rightarrow> 'b action" where
  "bnd f g = (\<lambda>w. case f w of (Inl e, w') \<Rightarrow> (Inl e, w') | (Inr x, w') \<Rightarrow> g x w')"

text \<open>\<^verbatim>\<open>try: f  except Exception as exc: h exc\<close>. Effects of \<open>f\<close> before the exception stay.\<close>

definition try_except :: "'a action \<Rightarrow> (pyexn \<Rightarrow> 'a action) \<Rightarrow> 'a action" where
  "try_except f h = (\<lambda>w. case f w of (Inl e, w') \<Rightarrow> h e w' | (Inr x, w') \<Rightarrow> (Inr x, w'))"

definition emit :: "event \<Rightarrow> unit action" where
  "emit ev = (\<lambda>w. (Inr (), w\<lparr>trace := trace w @ [ev]\<rparr>))"

definition log_msg :: "level \<Rightarrow> pyexn option \<Rightarrow> unit action" where
  "log_msg l e = emit (Log l e)"

subsection \<open>Library functions and the environment\<close>

text \<open>
  The lookup query: the dict with the four keys \<^verbatim>\<open>track_name\<close>, \<^verbatim>\<open>artist_name\<close>,
  \<^verbatim>\<open>album_name\<close>, \<^verbatim>\<open>duration\<close> that both query builders return.
\<close>

record query =
  track_name :: string
  artist_name :: string
  album_name :: string
  duration :: int

text \<open>
  What the code calls but does not define is an environment: the outcome of every library
  and operating-system call that reaches outside the process, each of which may raise.
  \<^item> \<open>int_max_str_digits\<close>: the interpreter's limit on the digits of \<^verbatim>\<open>int(str)\<close>
    (\<open>0\<close>: no limit; 4300 by default from CPython 3.11);
  \<^item> \<open>urlencode\<close>: \<^verbatim>\<open>urllib.parse.urlencode\<close> on the query dict;
  \<^item> \<open>create_unverified_context\<close>: \<^verbatim>\<open>ssl._create_unverified_context()\<close>;
  \<^item> \<open>urlopen url timeout\<close>: building the \<^verbatim>\<open>Request\<close> and \<^verbatim>\<open>urlopen\<close> with that timeout;
  \<^item> \<open>read_body url timeout\<close>: \<^verbatim>\<open>resp.read()\<close> on the response so obtained;
  \<^item> \<open>decode_json\<close>: \<^verbatim>\<open>data.decode("utf-8", errors="replace")\<close> then \<^verbatim>\<open>json.loads\<close>;
  \<^item> \<open>open_w path\<close>: \<^verbatim>\<open>open(path, "w", encoding="utf-8")\<close>;
  \<^item> \<open>write_str path text\<close>: \<^verbatim>\<open>f.write(text)\<close> and the close at the end of \<^verbatim>\<open>with\<close>;
    a failure comes with the number of characters that had reached the file by then;
  \<^item> \<open>thread_start\<close>: creating and starting the thread.
\<close>

record env =
  int_max_str_digits :: nat
  urlencode :: "query \<Rightarrow> pyexn + string"
  create_unverified_context :: "pyexn + unit"
  urlopen :: "string \<Rightarrow> nat \<Rightarrow> pyexn + unit"
  read_body :: "string \<Rightarrow> nat \<Rightarrow> pyexn + string"
  decode_json :: "string \<Rightarrow> pyexn + pyval"
  open_w :: "string \<Rightarrow> pyexn + unit"
  write_str :: "string \<Rightarrow> string \<Rightarrow> (pyexn \<times> nat) + unit"
  thread_start :: "pyexn + unit"

text \<open>
  The host's file object: reading \<^verbatim>\<open>file.filename\<close> and \<^verbatim>\<open>file.metadata\<close> may raise,
  and so may \<^verbatim>\<open>md.get(key)\<close>, which otherwise gives a string or \<open>None\<close>.
\<close>

record pfile =
  filename :: "pyexn + string"
  metadata :: "pyexn + (string \<Rightarrow> pyexn + string option)"

section \<open>Parsing the length\<close>

text \<open>\<^verbatim>\<open>s.split(":")\<close>: the pieces between the colons; never an empty list.\<close>

fun split_colon :: "string \<Rightarrow> string list" where
  "split_colon [] = [] # []"
| "split_colon (c # cs) =
     (if c = CHR '':'' then [] # split_colon cs
      else (c # hd (split_colon cs)) # tl (split_colon cs))"

text \<open>
  \<^verbatim>\<open>int(s)\<close> on a string, as CPython reads it in base 10: white space is stripped at both
  ends, one sign may follow, then decimal digits, with single underscores allowed between
  two digits. Anything else is a \<open>ValueError\<close>, and so is a literal of more than 640
  digits that exceeds the interpreter's digit limit. Among the code points below 256 the
  white space that \<^verbatim>\<open>int\<close> skips is tab, line feed, vertical tab, form feed, carriage
  return, space, next line (133) and no-break space (160); the decimal digits are \<open>0\<close> to
  \<open>9\<close>.
\<close>

definition is_space :: "char \<Rightarrow> bool" where
  "is_space c \<longleftrightarrow> (of_char c :: nat) \<in> {9, 10, 11, 12, 13, 32, 133, 160}"

definition is_digit :: "char \<Rightarrow> bool" where
  "is_digit c \<longleftrightarrow> 48 \<le> (of_char c :: nat) \<and> (of_char c :: nat) \<le> 57"

definition digit_val :: "char \<Rightarrow> nat" where
  "digit_val c = of_char c - 48"

definition strip :: "string \<Rightarrow> string" where
  "strip s = rev (dropWhile is_space (rev (dropWhile is_space s)))"

text \<open>The digits of a literal without its underscores; \<open>None\<close> when it is malformed.\<close>

fun digits_of :: "string \<Rightarrow> string option" where
  "digits_of [] = None"
| "digits_of [c] = (if is_digit c then Some [c] else None)"
| "digits_of (c # d # cs) =
     (if is_digit c then
        (if d = CHR ''_'' then map_option ((#) c) (digits_of cs)
         else map_option ((#) c) (digits_of (d # cs)))
      else None)"

definition horner :: "string \<Rightarrow> nat" where
  "horner ds = foldl (\<lambda>acc c. 10 * acc + digit_val c) 0 ds"

definition py_int :: "nat \<Rightarrow> string \<Rightarrow> pyexn + int" where
  "py_int maxd s =
     (let body = strip s;
          (sign, rest) = (case body of
                            c # r \<Rightarrow> if c = CHR ''-'' then (- 1, r)
                                     else if c = CHR ''+'' then (1, r) else (1, body)
                          | [] \<Rightarrow> (1, body))
      in case digits_of rest of
           None \<Rightarrow> Inl ValueError
         | Some ds \<Rightarrow>
             if 640 < length ds \<and> 0 < maxd \<and> maxd < length ds then Inl ValueError
             else Inr (sign * int (horner ds)))"

text \<open>
  The body of the \<^verbatim>\<open>try\<close> that parses \<^verbatim>\<open>~length\<close>, the same in both copies: the new
  value of \<^verbatim>\<open>duration\<close> (which stays \<open>None\<close> unless there are exactly two parts), or the
  exception of \<^verbatim>\<open>int\<close>.
\<close>

definition parse_length :: "nat \<Rightarrow> string \<Rightarrow> pyexn + int option" where
  "parse_length maxd length_str =
     (let parts = split_colon length_str in
      if length parts = 2 then
        (case py_int maxd (parts ! 0) of
           Inl e \<Rightarrow> Inl e
         | Inr minutes \<Rightarrow>
             (case py_int maxd (parts ! 1) of
                Inl e \<Rightarrow> Inl e
              | Inr seconds \<Rightarrow> Inr (Some (minutes * 60 + seconds))))
      else Inr None)"

section \<open>Building the query\<close>

text \<open>\<^verbatim>\<open>not (title and artist and duration)\<close> is false exactly when all three are truthy.\<close>

fun truthy_int :: "int option \<Rightarrow> bool" where
  "truthy_int None = False"
| "truthy_int (Some d) = (d \<noteq> 0)"

text \<open>\<^verbatim>\<open>album or ""\<close>.\<close>

fun or_empty :: "string option \<Rightarrow> string" where
  "or_empty None = []"
| "or_empty (Some s) = s"

text \<open>The query dict, built once the three required values are known to be truthy.\<close>

definition make_query :: "string option \<Rightarrow> string option \<Rightarrow> string option \<Rightarrow> int option \<Rightarrow> query" where
  "make_query title artist album dur =
     \<lparr>track_name = or_empty title, artist_name = or_empty artist,
      album_name = or_empty album, duration = (case dur of Some d \<Rightarrow> d | None \<Rightarrow> 0)\<rparr>"

text \<open>\<^verbatim>\<open>_build_query_from_snapshot\<close> (version 1.1.1).\<close>

definition build_query_from_snapshot :: "env \<Rightarrow> snapshot \<Rightarrow> query option action" where
  "build_query_from_snapshot env snapshot =
     (let title = snapshot ''title'';
          artist = snapshot ''artist'';
          album = snapshot ''album'';
          length_str = snapshot ''~length''
      in bnd (if truthy_str length_str then
                try_except (lift (parse_length (int_max_str_digits env) (or_empty length_str)))
                  (\<lambda>exc. bnd (log_msg WARNING (Some exc)) (\<lambda>_. ret None))
              else ret None)
          (\<lambda>dur. bnd (log_msg INFO None)
             (\<lambda>_. if \<not> (truthy_str title \<and> truthy_str artist \<and> truthy_int dur) then
                    bnd (log_msg WARNING None) (\<lambda>_. ret None)
                  else ret (Some (make_query title artist album dur)))))"

text \<open>\<^verbatim>\<open>_build_query_from_file\<close> (version 1.0.0): reads the host's metadata itself.\<close>

definition build_query_from_file :: "env \<Rightarrow> pfile \<Rightarrow> query option action" where
  "build_query_from_file env file =
     bnd (lift (metadata file)) (\<lambda>md.
     bnd (lift (md ''title'')) (\<lambda>title.
     bnd (lift (md ''artist'')) (\<lambda>artist.
     bnd (lift (md ''album'')) (\<lambda>album.
     bnd (lift (md ''~length'')) (\<lambda>length_str.
     bnd (if truthy_str length_str then
            try_except (lift (parse_length (int_max_str_digits env) (or_empty length_str)))
              (\<lambda>exc. bnd (log_msg INFO (Some exc)) (\<lambda>_. ret None))
          else ret None)
       (\<lambda>dur. bnd (log_msg INFO None)
          (\<lambda>_. if \<not> (truthy_str title \<and> truthy_str artist \<and> truthy_int dur) then ret None
               else ret (Some (make_query title artist album dur)))))))))"

text \<open>
  The value of \<^verbatim>\<open>duration\<close> after the \<^verbatim>\<open>try\<close>/\<^verbatim>\<open>except\<close> of either builder: \<open>None\<close>
  when \<^verbatim>\<open>~length\<close> is falsy, names no two parts, or made \<^verbatim>\<open>int\<close> raise.
\<close>

definition duration_of :: "nat \<Rightarrow> string option \<Rightarrow> int option" where
  "duration_of maxd length_str =
     (if truthy_str length_str then
        (case parse_length maxd (or_empty length_str) of Inl e \<Rightarrow> None | Inr d \<Rightarrow> d)
      else None)"

section \<open>The lyrics client\<close>

definition LRCLIB_URL :: string where
  "LRCLIB_URL = ''https://lrclib.net/api/get?''"

definition LRCLIB_URL_v1_0 :: string where
  "LRCLIB_URL_v1_0 = ''https://lrclib.net/api/get''"

text \<open>
  The \<^verbatim>\<open>try\<close> body around the request: \<^verbatim>\<open>Request\<close> and \<^verbatim>\<open>urlopen\<close> with the given
  timeout, the status log, then \<^verbatim>\<open>resp.read()\<close>.
\<close>

definition http_get :: "env \<Rightarrow> string \<Rightarrow> nat \<Rightarrow> string action" where
  "http_get env url timeout =
     bnd (emit (HttpGet url timeout)) (\<lambda>_.
     bnd (lift (urlopen env url timeout)) (\<lambda>resp.
     bnd (log_msg INFO None) (\<lambda>_.
       lift (read_body env url timeout))))"

text \<open>
  The end of \<^verbatim>\<open>_fetch_lyrics_from_lrclib\<close>, from \<^verbatim>\<open>if isinstance(obj, list)\<close> on, the
  same in both copies: from the decoded response to the pair \<^verbatim>\<open>(lyrics, is_synced)\<close>.
  The argument of each log call, \<^verbatim>\<open>len(synced)\<close> or \<^verbatim>\<open>len(plain)\<close>, is evaluated first.
\<close>

definition lyrics_from_decoded :: "pyval \<Rightarrow> (pyval \<times> pyval) action" where
  "lyrics_from_decoded obj0 =
     (case (case obj0 of PyList [] \<Rightarrow> None | PyList (x # xs) \<Rightarrow> Some x | _ \<Rightarrow> Some obj0) of
        None \<Rightarrow> ret (PyNone, PyNone)
      | Some obj \<Rightarrow>
          (case obj of
             PyDict kvs \<Rightarrow>
               if \<not> truthy (dict_get kvs ''id'') then ret (PyNone, PyNone)
               else
                 (let synced = dict_get kvs ''syncedLyrics'';
                      plain = dict_get kvs ''plainLyrics''
                  in if truthy synced then
                       bnd (lift (py_len synced)) (\<lambda>n.
                       bnd (log_msg INFO None) (\<lambda>_. ret (synced, PyBool True)))
                     else if truthy plain then
                       bnd (lift (py_len plain)) (\<lambda>n.
                       bnd (log_msg INFO None) (\<lambda>_. ret (plain, PyBool False)))
                     else ret (PyNone, PyNone))
           | _ \<Rightarrow> ret (PyNone, PyNone)))"

text \<open>
  The two \<^verbatim>\<open>try\<close> blocks of \<^verbatim>\<open>_fetch_lyrics_from_lrclib\<close> and what follows them, given the
  URL, the timeout and the level at which a failure is logged (the copies differ in the
  last two). A \<^verbatim>\<open>return None, None\<close> inside an \<^verbatim>\<open>except\<close> is the \<open>None\<close> of the option.
\<close>

definition request_and_decode :: "env \<Rightarrow> string \<Rightarrow> nat \<Rightarrow> level \<Rightarrow> (pyval \<times> pyval) action" where
  "request_and_decode env url timeout lvl =
     bnd (try_except (bnd (http_get env url timeout) (\<lambda>data. ret (Some data)))
            (\<lambda>exc. bnd (log_msg lvl (Some exc)) (\<lambda>_. ret None)))
       (\<lambda>data. case data of
          None \<Rightarrow> ret (PyNone, PyNone)
        | Some data \<Rightarrow>
            bnd (try_except (bnd (lift (decode_json env data)) (\<lambda>obj. ret (Some obj)))
                   (\<lambda>exc. bnd (log_msg lvl (Some exc)) (\<lambda>_. ret None)))
              (\<lambda>obj. case obj of
                 None \<Rightarrow> ret (PyNone, PyNone)
               | Some obj \<Rightarrow> lyrics_from_decoded obj))"

text \<open>\<^verbatim>\<open>_fetch_lyrics_from_lrclib\<close> (version 1.1.1): timeout 15, failures logged as errors.\<close>

definition fetch_lyrics_from_lrclib :: "env \<Rightarrow> query \<Rightarrow> (pyval \<times> pyval) action" where
  "fetch_lyrics_from_lrclib env q =
     bnd (lift (urlencode env q)) (\<lambda>enc.
     bnd (log_msg INFO None) (\<lambda>_.
     bnd (lift (create_unverified_context env)) (\<lambda>ctx.
       request_and_decode env (LRCLIB_URL @ enc) 15 ERROR)))"

text \<open>\<^verbatim>\<open>_fetch_lyrics_from_lrclib\<close> (version 1.0.0): timeout 10, failures logged as warnings.\<close>

definition fetch_lyrics_from_lrclib_v1_0 :: "env \<Rightarrow> query \<Rightarrow> (pyval \<times> pyval) action" where
  "fetch_lyrics_from_lrclib_v1_0 env q =
     bnd (lift (urlencode env q)) (\<lambda>enc.
     bnd (log_msg INFO None) (\<lambda>_.
     bnd (lift (create_unverified_context env)) (\<lambda>ctx.
       request_and_decode env (LRCLIB_URL_v1_0 @ ''?'' @ enc) 10 WARNING)))"

section \<open>The sidecar writer\<close>

text \<open>
  \<^verbatim>\<open>os.path\<close> on a POSIX host. \<open>rfind c p\<close> is \<^verbatim>\<open>p.rfind(c)\<close>: the last index of \<open>c\<close>, or
  \<open>-1\<close>.
\<close>

definition rfind :: "char \<Rightarrow> string \<Rightarrow> int" where
  "rfind c p =
     (if c \<in> set p then int (length p) - 1 - int (length (takeWhile (\<lambda>x. x \<noteq> c) (rev p)))
      else - 1)"

definition rstrip_sep :: "string \<Rightarrow> string" where
  "rstrip_sep h = rev (dropWhile (\<lambda>x. x = CHR ''/'') (rev h))"

text \<open>\<^verbatim>\<open>os.path.split\<close>.\<close>

definition path_split :: "string \<Rightarrow> string \<times> string" where
  "path_split p =
     (let i = nat (rfind CHR ''/'' p + 1);
          head = take i p;
          tail = drop i p
      in (if head \<noteq> [] \<and> head \<noteq> replicate (length head) CHR ''/'' then rstrip_sep head
          else head, tail))"

text \<open>
  The loop of \<^verbatim>\<open>os.path.splitext\<close> that skips leading dots: whether some character from
  \<open>filenameIndex\<close> up to \<open>dotIndex\<close> is not a dot.
\<close>

function nondot_before :: "string \<Rightarrow> nat \<Rightarrow> nat \<Rightarrow> bool" where
  "nondot_before p filenameIndex dotIndex =
     (if filenameIndex < dotIndex then
        (if p ! filenameIndex \<noteq> CHR ''.'' then True
         else nondot_before p (Suc filenameIndex) dotIndex)
      else False)"
  by pat_completeness auto
termination
  by (relation "measure (\<lambda>(p, filenameIndex, dotIndex). dotIndex - filenameIndex)") auto

declare nondot_before.simps [simp del]

text \<open>\<^verbatim>\<open>os.path.splitext\<close>.\<close>

definition splitext :: "string \<Rightarrow> string \<times> string" where
  "splitext p =
     (let sepIndex = rfind CHR ''/'' p;
          dotIndex = rfind CHR ''.'' p
      in if dotIndex > sepIndex \<and> nondot_before p (nat (sepIndex + 1)) (nat dotIndex)
         then (take (nat dotIndex) p, drop (nat dotIndex) p)
         else (p, []))"

text \<open>\<^verbatim>\<open>os.path.join\<close> of two components.\<close>

definition path_join :: "string \<Rightarrow> string \<Rightarrow> string" where
  "path_join a b =
     (if b \<noteq> [] \<and> hd b = CHR ''/'' then b
      else if a = [] \<or> last a = CHR ''/'' then a @ b
      else a @ ''/'' @ b)"

text \<open>The first four lines of the writer: the path of the sidecar.\<close>

definition sidecar_path :: "string \<Rightarrow> pyval \<Rightarrow> string" where
  "sidecar_path audio_path is_synced =
     (let (directory, fname) = path_split audio_path;
          (stem, old_ext) = splitext fname;
          ext = (if truthy is_synced then ''.lrc'' else ''.txt'')
      in path_join directory (stem @ ext))"

text \<open>
  \<^verbatim>\<open>open(path, "w", encoding="utf-8")\<close> creates the file or empties an existing one;
  \<^verbatim>\<open>f.write\<close> refuses what is not a \<open>str\<close>, before anything is written. A write or close
  that fails leaves in the file the characters that had reached it: a prefix of the text,
  of the length the environment names. The contents of a file are held as text, so the cut
  falls between two characters.
\<close>

definition open_for_writing :: "env \<Rightarrow> string \<Rightarrow> unit action" where
  "open_for_writing env path =
     bnd (lift (open_w env path)) (\<lambda>_.
       (\<lambda>w. (Inr (), w\<lparr>fs := (fs w)(path \<mapsto> []), trace := trace w @ [FileOpen path]\<rparr>)))"

definition file_write :: "env \<Rightarrow> string \<Rightarrow> pyval \<Rightarrow> unit action" where
  "file_write env path v =
     (case v of
        PyStr text \<Rightarrow>
          (case write_str env path text of
             Inl (e, n) \<Rightarrow> (\<lambda>w. (Inl e, w\<lparr>fs := (fs w)(path \<mapsto> take n text)\<rparr>))
           | Inr u \<Rightarrow>
               (\<lambda>w. (Inr (), w\<lparr>fs := (fs w)(path \<mapsto> text),
                              trace := trace w @ [FileWrite path]\<rparr>)))
      | _ \<Rightarrow> raise TypeError)"

text \<open>\<^verbatim>\<open>_write_sidecar_for_path\<close> (version 1.1.1).\<close>

definition write_sidecar_for_path :: "env \<Rightarrow> string \<Rightarrow> pyval \<Rightarrow> pyval \<Rightarrow> unit action" where
  "write_sidecar_for_path env audio_path lyrics is_synced =
     (let out_path = sidecar_path audio_path is_synced
      in bnd (log_msg INFO None) (\<lambda>_.
           try_except
             (bnd (open_for_writing env out_path) (\<lambda>_.
              bnd (file_write env out_path lyrics) (\<lambda>_. log_msg INFO None)))
             (\<lambda>exc. log_msg ERROR (Some exc))))"

text \<open>\<^verbatim>\<open>_write_sidecar_for_file\<close> (version 1.0.0): reads \<^verbatim>\<open>file.filename\<close> first.\<close>

definition write_sidecar_for_file :: "env \<Rightarrow> pfile \<Rightarrow> pyval \<Rightarrow> pyval \<Rightarrow> unit action" where
  "write_sidecar_for_file env file lyrics is_synced =
     bnd (lift (filename file)) (\<lambda>audio_path.
       (let out_path = sidecar_path audio_path is_synced
        in bnd (log_msg INFO None) (\<lambda>_.
             try_except
               (bnd (open_for_writing env out_path) (\<lambda>_.
                bnd (file_write env out_path lyrics) (\<lambda>_. log_msg INFO None)))
               (\<lambda>exc. log_msg ERROR (Some exc)))))"

section \<open>Worker and save hook\<close>

text \<open>\<^verbatim>\<open>_worker_for_file\<close> (version 1.1.1): what the background thread runs.\<close>

definition worker_for_file :: "env \<Rightarrow> string \<Rightarrow> snapshot \<Rightarrow> unit action" where
  "worker_for_file env audio_path snapshot =
     try_except
       (bnd (log_msg INFO None) (\<lambda>_.
        bnd (build_query_from_snapshot env snapshot) (\<lambda>query.
          case query of
            None \<Rightarrow> ret ()
          | Some q \<Rightarrow>
              bnd (fetch_lyrics_from_lrclib env q) (\<lambda>(lyrics, is_synced).
                if \<not> truthy lyrics then log_msg INFO None
                else write_sidecar_for_path env audio_path lyrics is_synced))))
       (\<lambda>exc. log_msg ERROR (Some exc))"

text \<open>The dict literal of the hook: the four tags read from the host's metadata.\<close>

definition make_snapshot ::
    "string option \<Rightarrow> string option \<Rightarrow> string option \<Rightarrow> string option \<Rightarrow> snapshot" where
  "make_snapshot title artist album length_str =
     (\<lambda>k. if k = ''title'' then title
          else if k = ''artist'' then artist
          else if k = ''album'' then album
          else if k = ''~length'' then length_str
          else None)"

text \<open>
  \<^verbatim>\<open>lrclib_simple_file_post_save\<close> (version 1.1.1): three guarded steps, the last of which
  starts the daemon thread. An early \<^verbatim>\<open>return\<close> in an \<^verbatim>\<open>except\<close> is the \<open>None\<close> of the
  option.
\<close>

definition lrclib_simple_file_post_save :: "env \<Rightarrow> pfile \<Rightarrow> unit action" where
  "lrclib_simple_file_post_save env file =
     bnd (try_except (bnd (lift (filename file)) (\<lambda>p. ret (Some p)))
            (\<lambda>exc. bnd (log_msg ERROR (Some exc)) (\<lambda>_. ret None)))
       (\<lambda>path. case path of
          None \<Rightarrow> ret ()
        | Some audio_path \<Rightarrow>
            bnd (try_except
                   (bnd (lift (metadata file)) (\<lambda>md.
                    bnd (lift (md ''title'')) (\<lambda>title.
                    bnd (lift (md ''artist'')) (\<lambda>artist.
                    bnd (lift (md ''album'')) (\<lambda>album.
                    bnd (lift (md ''~length'')) (\<lambda>length_str.
                    bnd (log_msg INFO None) (\<lambda>_.
                      ret (Some (make_snapshot title artist album length_str)))))))))
                   (\<lambda>exc. bnd (log_msg ERROR (Some exc)) (\<lambda>_. ret None)))
              (\<lambda>snap. case snap of
                 None \<Rightarrow> ret ()
               | Some snapshot \<Rightarrow>
                   try_except
                     (bnd (lift (thread_start env)) (\<lambda>_.
                        emit (ThreadStart audio_path snapshot True)))
                     (\<lambda>exc. log_msg ERROR (Some exc))))"

text \<open>
  \<^verbatim>\<open>lrclib_simple_file_post_save\<close> (version 1.0.0): the whole pipeline inside the hook,
  under one \<^verbatim>\<open>try\<close>.
\<close>

definition lrclib_simple_file_post_save_v1_0 :: "env \<Rightarrow> pfile \<Rightarrow> unit action" where
  "lrclib_simple_file_post_save_v1_0 env file =
     try_except
       (bnd (lift (filename file)) (\<lambda>p.
        bnd (log_msg INFO None) (\<lambda>_.
        bnd (build_query_from_file env file) (\<lambda>query.
          case query of
            None \<Rightarrow> ret ()
          | Some q \<Rightarrow>
              bnd (fetch_lyrics_from_lrclib_v1_0 env q) (\<lambda>(lyrics, is_synced).
                if \<not> truthy lyrics then log_msg INFO None
                else write_sidecar_for_file env file lyrics is_synced)))))
       (\<lambda>exc. log_msg ERROR (Some exc))"

section \<open>Notions used to state the properties\<close>

text \<open>
  The number that a decimal numeral denotes, most significant digit first: the meaning of
  the minutes and of the seconds of a length written \<open>mm:ss\<close>.
\<close>

fun decimal_value :: "string \<Rightarrow> nat" where
  "decimal_value [] = 0"
| "decimal_value (c # cs) = digit_val c * 10 ^ length cs + decimal_value cs"

text \<open>
  The well-formed \<open>mm:ss\<close> shape: one or more decimal digits, a colon, one or more decimal
  digits. The minutes are what stands before the first colon, the seconds what follows it.
\<close>

definition minutes_part :: "string \<Rightarrow> string" where
  "minutes_part s = takeWhile (\<lambda>c. c \<noteq> CHR '':'') s"

definition seconds_part :: "string \<Rightarrow> string" where
  "seconds_part s = tl (dropWhile (\<lambda>c. c \<noteq> CHR '':'') s)"

definition mm_ss_shape :: "string \<Rightarrow> bool" where
  "mm_ss_shape s \<longleftrightarrow>
     minutes_part s \<noteq> [] \<and> list_all is_digit (minutes_part s) \<and>
     dropWhile (\<lambda>c. c \<noteq> CHR '':'') s \<noteq> [] \<and>
     seconds_part s \<noteq> [] \<and> list_all is_digit (seconds_part s)"

text \<open>A numeral short enough for the interpreter's digit limit, if there is one.\<close>

definition within_digit_limit :: "nat \<Rightarrow> string \<Rightarrow> bool" where
  "within_digit_limit maxd ds \<longleftrightarrow> length ds \<le> 640 \<or> maxd = 0 \<or> length ds \<le> maxd"

text \<open>The outcome of the whole exchange with the server: the body, or the first exception.\<close>

definition transport :: "env \<Rightarrow> string \<Rightarrow> nat \<Rightarrow> pyexn + string" where
  "transport env url timeout =
     (case urlopen env url timeout of Inl e \<Rightarrow> Inl e | Inr resp \<Rightarrow> read_body env url timeout)"

text \<open>Whether \<^verbatim>\<open>len\<close> accepts a value.\<close>

fun has_len :: "pyval \<Rightarrow> bool" where
  "has_len (PyStr s) = True"
| "has_len (PyList xs) = True"
| "has_len (PyDict kvs) = True"
| "has_len v = False"

fun is_dict :: "pyval \<Rightarrow> bool" where
  "is_dict (PyDict kvs) = True"
| "is_dict v = False"

fun is_list :: "pyval \<Rightarrow> bool" where
  "is_list (PyList xs) = True"
| "is_list v = False"

text \<open>What a sidecar holds once the writer has opened it and tried to write.\<close>

definition written :: "env \<Rightarrow> string \<Rightarrow> pyval \<Rightarrow> string" where
  "written env path lyrics =
     (case lyrics of
        PyStr text \<Rightarrow>
          (case write_str env path text of Inl (e, n) \<Rightarrow> take n text | Inr u \<Rightarrow> text)
      | _ \<Rightarrow> [])"

text \<open>
  The outcome of reading the four tags from the host's file, in the order in which both
  hooks read them: the snapshot, or the first exception.
\<close>

definition read_tags :: "pfile \<Rightarrow> pyexn + snapshot" where
  "read_tags file =
     (case metadata file of
        Inl e \<Rightarrow> Inl e
      | Inr md \<Rightarrow>
          (case md ''title'' of
             Inl e \<Rightarrow> Inl e
           | Inr title \<Rightarrow>
               (case md ''artist'' of
                  Inl e \<Rightarrow> Inl e
                | Inr artist \<Rightarrow>
                    (case md ''album'' of
                       Inl e \<Rightarrow> Inl e
                     | Inr album \<Rightarrow>
                         (case md ''~length'' of
                            Inl e \<Rightarrow> Inl e
                          | Inr length_str \<Rightarrow>
                              Inr (make_snapshot title artist album length_str))))))"

text \<open>A lyrics field as the service documents it: a string, or \<open>None\<close> when null or absent.\<close>

fun str_or_none :: "pyval \<Rightarrow> bool" where
  "str_or_none (PyStr s) = True"
| "str_or_none PyNone = True"
| "str_or_none v = False"

text \<open>The events of a trace that are not log calls: requests, file operations, threads.\<close>

fun is_log :: "event \<Rightarrow> bool" where
  "is_log (Log l e) = True"
| "is_log ev = False"

definition effects :: "event list \<Rightarrow> event list" where
  "effects tr = filter (\<lambda>ev. \<not> is_log ev) tr"

subsection \<open>Concrete inputs\<close>

definition world_empty :: world where
  "world_empty = \<lparr>fs = (\<lambda>p. None), trace = []\<rparr>"

text \<open>An environment in which every call succeeds and the server's answer decodes to \<open>obj\<close>.\<close>

definition env_online :: "pyval \<Rightarrow> env" where
  "env_online obj =
     \<lparr>int_max_str_digits = 4300,
      urlencode = (\<lambda>q. Inr ''track_name=X&artist_name=Y&album_name=Z&duration=225''),
      create_unverified_context = Inr (),
      urlopen = (\<lambda>url timeout. Inr ()),
      read_body = (\<lambda>url timeout. Inr ''{}''),
      decode_json = (\<lambda>data. Inr obj),
      open_w = (\<lambda>path. Inr ()),
      write_str = (\<lambda>path text. Inr ()),
      thread_start = Inr ()\<rparr>"

definition snapshot_xyz :: snapshot where
  "snapshot_xyz = make_snapshot (Some ''X'') (Some ''Y'') (Some ''Z'') (Some ''3:45'')"

definition query_xyz :: query where
  "query_xyz = \<lparr>track_name = ''X'', artist_name = ''Y'', album_name = ''Z'', duration = 225\<rparr>"

text \<open>A response with synced lyrics.\<close>

definition response_synced :: pyval where
  "response_synced = PyDict [(''id'', PyInt 7), (''syncedLyrics'', PyStr ''[00:01.00] la'')]"

text \<open>A server that answers after twelve seconds.\<close>

definition env_slow :: env where
  "env_slow = (env_online response_synced)
     \<lparr>urlopen := (\<lambda>url timeout. if timeout < 12 then Inl TimeoutError else Inr ())\<rparr>"

text \<open>A disk that is full once four characters of a file have been written.\<close>

definition env_disk_full :: env where
  "env_disk_full =
     (env_online response_synced)\<lparr>write_str := (\<lambda>path text. Inl (OSError, 4))\<rparr>"

definition world_with_sidecar :: world where
  "world_with_sidecar =
     \<lparr>fs = (\<lambda>p. if p = ''/music/a/Song.lrc'' then Some ''old lyrics'' else None), trace = []\<rparr>"

text \<open>A saved file whose path and tags can be read.\<close>

definition file_song :: pfile where
  "file_song = \<lparr>filename = Inr ''/music/a/Song.flac'', metadata = Inr (\<lambda>k. Inr (snapshot_xyz k))\<rparr>"

section \<open>Auxiliary facts\<close>

lemmas act_defs = ret_def raise_def lift_def bnd_def try_except_def emit_def log_msg_def

subsection \<open>Splitting and reading numerals\<close>

lemma split_colon_nonempty: "split_colon s \<noteq> []"
  by (induction s) auto

lemma split_colon_no_colon: "CHR '':'' \<notin> set s \<Longrightarrow> split_colon s = [s]"
  by (induction s) auto

lemma split_colon_append:
  "CHR '':'' \<notin> set a \<Longrightarrow> split_colon (a @ CHR '':'' # b) = a # split_colon b"
  by (induction a) auto

lemma split_colon_single: "split_colon s = [a] \<Longrightarrow> s = a \<and> CHR '':'' \<notin> set a"
proof (induction s arbitrary: a)
  case Nil
  then show ?case by simp
next
  case (Cons c cs)
  show ?case
  proof (cases "c = CHR '':''")
    case True
    with Cons.prems show ?thesis by (simp add: split_colon_nonempty)
  next
    case False
    with Cons.prems have eq: "(c # hd (split_colon cs)) # tl (split_colon cs) = [a]" by simp
    then have "tl (split_colon cs) = []" and a: "a = c # hd (split_colon cs)" by auto
    then have "split_colon cs = [hd (split_colon cs)]"
      using split_colon_nonempty [of cs] by (cases "split_colon cs") auto
    from Cons.IH [OF this]
    have "cs = hd (split_colon cs)" "CHR '':'' \<notin> set (hd (split_colon cs))" by auto
    with a False show ?thesis by auto
  qed
qed

lemma split_colon_two:
  "split_colon s = [a, b] \<longleftrightarrow>
     s = a @ CHR '':'' # b \<and> CHR '':'' \<notin> set a \<and> CHR '':'' \<notin> set b"
proof
  assume "split_colon s = [a, b]"
  then show "s = a @ CHR '':'' # b \<and> CHR '':'' \<notin> set a \<and> CHR '':'' \<notin> set b"
  proof (induction s arbitrary: a)
    case Nil
    then show ?case by simp
  next
    case (Cons c cs)
    show ?case
    proof (cases "c = CHR '':''")
      case True
      with Cons.prems have "a = []" "split_colon cs = [b]" by auto
      with split_colon_single [of cs b] True show ?thesis by auto
    next
      case False
      with Cons.prems have eq: "(c # hd (split_colon cs)) # tl (split_colon cs) = [a, b]"
        by simp
      then have t: "tl (split_colon cs) = [b]" and a: "a = c # hd (split_colon cs)" by auto
      then have "split_colon cs = [hd (split_colon cs), b]"
        using split_colon_nonempty [of cs] by (cases "split_colon cs") auto
      from Cons.IH [OF this] a False show ?thesis by auto
    qed
  qed
next
  assume "s = a @ CHR '':'' # b \<and> CHR '':'' \<notin> set a \<and> CHR '':'' \<notin> set b"
  then show "split_colon s = [a, b]"
    by (simp add: split_colon_append split_colon_no_colon)
qed

lemma is_digit_not_space: "is_digit c \<Longrightarrow> \<not> is_space c"
  by (auto simp: is_digit_def is_space_def)

lemma is_digit_not_special:
  "is_digit c \<Longrightarrow> c \<noteq> CHR ''_'' \<and> c \<noteq> CHR ''-'' \<and> c \<noteq> CHR ''+'' \<and> c \<noteq> CHR '':''"
  by (auto simp: is_digit_def)

lemma strip_digits: "list_all is_digit ds \<Longrightarrow> strip ds = ds"
proof (cases ds rule: rev_cases)
  case Nil
  then show ?thesis by (simp add: strip_def)
next
  case (snoc xs x)
  assume "list_all is_digit ds"
  with snoc have x: "\<not> is_space x" and h: "\<not> is_space (hd ds)"
    by (cases xs; auto simp: is_digit_not_space)+
  from snoc have "ds \<noteq> []" by simp
  with h have "dropWhile is_space ds = ds" by (cases ds) auto
  with snoc x show ?thesis by (simp add: strip_def)
qed

lemma digits_of_digits: "ds \<noteq> [] \<Longrightarrow> list_all is_digit ds \<Longrightarrow> digits_of ds = Some ds"
  by (induction ds rule: digits_of.induct) (auto simp: is_digit_not_special)

lemma foldl_horner:
  "foldl (\<lambda>acc c. 10 * acc + digit_val c) a ds = a * 10 ^ length ds + decimal_value ds"
  by (induction ds arbitrary: a) (auto simp: algebra_simps)

lemma horner_decimal_value: "horner ds = decimal_value ds"
  by (simp add: horner_def foldl_horner)

lemma py_int_digits:
  assumes "ds \<noteq> []" "list_all is_digit ds" "within_digit_limit maxd ds"
  shows "py_int maxd ds = Inr (int (decimal_value ds))"
proof -
  from assms obtain c r where ds: "ds = c # r" by (cases ds) auto
  with assms have "is_digit c" by simp
  then have c: "c \<noteq> CHR ''-''" "c \<noteq> CHR ''+''" by (auto simp: is_digit_not_special)
  have body: "strip ds = c # r" using assms(2) ds by (simp add: strip_digits)
  have dig: "digits_of (c # r) = Some ds" using assms(1,2) ds by (simp add: digits_of_digits)
  have lim: "\<not> (640 < length ds \<and> 0 < maxd \<and> maxd < length ds)"
    using assms(3) by (auto simp: within_digit_limit_def)
  show ?thesis
    unfolding py_int_def body using c dig lim by (simp add: horner_decimal_value)
qed

lemma parse_length_digits:
  assumes "ms \<noteq> []" "list_all is_digit ms" "within_digit_limit maxd ms"
    and "ss \<noteq> []" "list_all is_digit ss" "within_digit_limit maxd ss"
  shows "parse_length maxd (ms @ CHR '':'' # ss) =
           Inr (Some (int (decimal_value ms) * 60 + int (decimal_value ss)))"
proof -
  have "CHR '':'' \<notin> set ms" "CHR '':'' \<notin> set ss"
    using assms(2,5) is_digit_not_special by (auto simp: list_all_iff)
  then have "split_colon (ms @ CHR '':'' # ss) = [ms, ss]" by (simp add: split_colon_two)
  then show ?thesis
    by (simp add: parse_length_def py_int_digits [OF assms(1,2,3)]
          py_int_digits [OF assms(4,5,6)])
qed

lemma mm_ss_shape_decompose:
  "mm_ss_shape s \<Longrightarrow> s = minutes_part s @ CHR '':'' # seconds_part s"
proof -
  assume sh: "mm_ss_shape s"
  let ?d = "dropWhile (\<lambda>c. c \<noteq> CHR '':'') s"
  from sh have ne: "?d \<noteq> []" by (simp add: mm_ss_shape_def)
  then have "hd ?d = CHR '':''" using hd_dropWhile [of "\<lambda>c. c \<noteq> CHR '':''" s] by simp
  with ne have "?d = CHR '':'' # tl ?d" by (cases ?d) auto
  then have "takeWhile (\<lambda>c. c \<noteq> CHR '':'') s @ CHR '':'' # tl ?d = s"
    using takeWhile_dropWhile_id [of "\<lambda>c. c \<noteq> CHR '':''" s] by simp
  then show ?thesis by (simp add: minutes_part_def seconds_part_def)
qed

lemma parse_length_some_iff:
  "parse_length maxd s = Inr (Some d) \<longleftrightarrow>
     (\<exists>a b m n. s = a @ CHR '':'' # b \<and> CHR '':'' \<notin> set a \<and> CHR '':'' \<notin> set b
        \<and> py_int maxd a = Inr m \<and> py_int maxd b = Inr n \<and> d = m * 60 + n)"
proof
  assume p: "parse_length maxd s = Inr (Some d)"
  then have len: "length (split_colon s) = 2"
    by (auto simp: parse_length_def Let_def split: if_splits)
  then obtain a b where ab: "split_colon s = [a, b]"
    by (cases "split_colon s"; cases "tl (split_colon s)") auto
  with p obtain m n where "py_int maxd a = Inr m" "py_int maxd b = Inr n" "d = m * 60 + n"
    by (auto simp: parse_length_def split: sum.splits)
  with ab show "\<exists>a b m n. s = a @ CHR '':'' # b \<and> CHR '':'' \<notin> set a \<and> CHR '':'' \<notin> set b
        \<and> py_int maxd a = Inr m \<and> py_int maxd b = Inr n \<and> d = m * 60 + n"
    by (auto simp: split_colon_two)
next
  assume "\<exists>a b m n. s = a @ CHR '':'' # b \<and> CHR '':'' \<notin> set a \<and> CHR '':'' \<notin> set b
        \<and> py_int maxd a = Inr m \<and> py_int maxd b = Inr n \<and> d = m * 60 + n"
  then obtain a b m n where "split_colon s = [a, b]"
      "py_int maxd a = Inr m" "py_int maxd b = Inr n" "d = m * 60 + n"
    by (auto simp: split_colon_two)
  then show "parse_length maxd s = Inr (Some d)" by (simp add: parse_length_def)
qed

subsection \<open>The result of the query builders\<close>

lemma build_query_from_snapshot_fst:
  "fst (build_query_from_snapshot env snapshot w) =
     Inr (if truthy_str (snapshot ''title'') \<and> truthy_str (snapshot ''artist'')
             \<and> truthy_int (duration_of (int_max_str_digits env) (snapshot ''~length''))
          then Some (make_query (snapshot ''title'') (snapshot ''artist'') (snapshot ''album'')
                 (duration_of (int_max_str_digits env) (snapshot ''~length'')))
          else None)"
  by (simp add: build_query_from_snapshot_def duration_of_def act_defs Let_def
           split: sum.splits prod.splits option.splits)

lemma build_query_from_file_fst:
  "metadata file = Inr (\<lambda>k. Inr (snapshot k)) \<Longrightarrow>
   fst (build_query_from_file env file w) =
     Inr (if truthy_str (snapshot ''title'') \<and> truthy_str (snapshot ''artist'')
             \<and> truthy_int (duration_of (int_max_str_digits env) (snapshot ''~length''))
          then Some (make_query (snapshot ''title'') (snapshot ''artist'') (snapshot ''album'')
                 (duration_of (int_max_str_digits env) (snapshot ''~length'')))
          else None)"
  by (simp add: build_query_from_file_def duration_of_def act_defs Let_def
           split: sum.splits prod.splits option.splits)

subsection \<open>What each step does to the world\<close>

lemma effects_append [simp]: "effects (a @ b) = effects a @ effects b"
  by (simp add: effects_def)

lemma effects_simps [simp]:
  "effects [] = []"
  "effects (Log l e # tr) = effects tr"
  "effects (HttpGet u t # tr) = HttpGet u t # effects tr"
  "effects (FileOpen p # tr) = FileOpen p # effects tr"
  "effects (FileWrite p # tr) = FileWrite p # effects tr"
  "effects (ThreadStart p s d # tr) = ThreadStart p s d # effects tr"
  by (simp_all add: effects_def)

lemma build_query_from_snapshot_quiet:
  "fs (snd (build_query_from_snapshot env snapshot w)) = fs w \<and>
   effects (trace (snd (build_query_from_snapshot env snapshot w))) = effects (trace w)"
  by (simp add: build_query_from_snapshot_def act_defs Let_def
           split: sum.splits prod.splits option.splits)

lemma build_query_from_file_quiet:
  "fs (snd (build_query_from_file env file w)) = fs w \<and>
   effects (trace (snd (build_query_from_file env file w))) = effects (trace w)"
  by (simp add: build_query_from_file_def act_defs Let_def
           split: sum.splits prod.splits option.splits)

lemma build_query_from_file_fst_indep:
  "fst (build_query_from_file env file w) = fst (build_query_from_file env file w')"
  by (simp add: build_query_from_file_def act_defs Let_def
           split: sum.splits prod.splits option.splits)

lemma lyrics_from_decoded_quiet:
  "fs (snd (lyrics_from_decoded obj w)) = fs w \<and>
   effects (trace (snd (lyrics_from_decoded obj w))) = effects (trace w)"
  by (simp add: lyrics_from_decoded_def act_defs Let_def
           split: sum.splits prod.splits option.splits pyval.splits list.splits)

lemma lyrics_from_decoded_fst_indep:
  "fst (lyrics_from_decoded obj w) = fst (lyrics_from_decoded obj w')"
  by (simp add: lyrics_from_decoded_def act_defs Let_def
           split: sum.splits prod.splits option.splits pyval.splits list.splits)

lemma py_len_has_len:
  "py_len v =
     (if has_len v then
        Inr (case v of PyStr s \<Rightarrow> length s | PyList xs \<Rightarrow> length xs
             | PyDict kvs \<Rightarrow> length kvs | _ \<Rightarrow> 0)
      else Inl TypeError)"
  by (cases v) auto

lemma lyrics_from_decoded_dict:
  "lyrics_from_decoded (PyDict kvs) w =
     (if \<not> truthy (dict_get kvs ''id'') then (Inr (PyNone, PyNone), w)
      else if truthy (dict_get kvs ''syncedLyrics'') then
        (if has_len (dict_get kvs ''syncedLyrics'')
         then (Inr (dict_get kvs ''syncedLyrics'', PyBool True), w\<lparr>trace := trace w @ [Log INFO None]\<rparr>)
         else (Inl TypeError, w))
      else if truthy (dict_get kvs ''plainLyrics'') then
        (if has_len (dict_get kvs ''plainLyrics'')
         then (Inr (dict_get kvs ''plainLyrics'', PyBool False), w\<lparr>trace := trace w @ [Log INFO None]\<rparr>)
         else (Inl TypeError, w))
      else (Inr (PyNone, PyNone), w))"
  by (simp add: lyrics_from_decoded_def act_defs Let_def py_len_has_len)

lemma lyrics_from_decoded_list:
  "lyrics_from_decoded (PyList []) w = (Inr (PyNone, PyNone), w)"
  "lyrics_from_decoded (PyList (PyDict kvs # rest)) w = lyrics_from_decoded (PyDict kvs) w"
  "\<not> is_dict v \<Longrightarrow> lyrics_from_decoded (PyList (v # rest)) w = (Inr (PyNone, PyNone), w)"
  "\<not> is_dict v \<Longrightarrow> \<not> is_list v \<Longrightarrow> lyrics_from_decoded v w = (Inr (PyNone, PyNone), w)"
  by (cases v; simp add: lyrics_from_decoded_def act_defs)+

lemma lyrics_from_decoded_paired:
  assumes "fst (lyrics_from_decoded obj w) = Inr (lyrics, is_synced)"
  shows "(lyrics = PyNone \<and> is_synced = PyNone) \<or>
     (truthy lyrics \<and> has_len lyrics \<and> (is_synced = PyBool True \<or> is_synced = PyBool False))"
proof -
  have dict: "(lyrics = PyNone \<and> is_synced = PyNone) \<or>
     (truthy lyrics \<and> has_len lyrics \<and> (is_synced = PyBool True \<or> is_synced = PyBool False))"
    if "fst (lyrics_from_decoded (PyDict kvs) w) = Inr (lyrics, is_synced)" for kvs
    using that by (auto simp: lyrics_from_decoded_dict split: if_splits)
  show ?thesis
  proof (cases "is_dict obj")
    case True
    then obtain kvs where "obj = PyDict kvs" by (cases obj) auto
    with assms dict show ?thesis by blast
  next
    case nd: False
    show ?thesis
    proof (cases "is_list obj")
      case False
      with nd assms show ?thesis by (simp add: lyrics_from_decoded_list)
    next
      case True
      then obtain xs where xs: "obj = PyList xs" by (cases obj) auto
      show ?thesis
      proof (cases xs)
        case Nil
        with xs assms show ?thesis by (simp add: lyrics_from_decoded_list)
      next
        case (Cons x rest)
        show ?thesis
        proof (cases "is_dict x")
          case True
          then obtain kvs where "x = PyDict kvs" by (cases x) auto
          with xs Cons assms dict show ?thesis by (simp add: lyrics_from_decoded_list)
        next
          case False
          with xs Cons assms show ?thesis by (simp add: lyrics_from_decoded_list)
        qed
      qed
    qed
  qed
qed

lemma lyrics_from_decoded_raises:
  "fst (lyrics_from_decoded obj w) = Inl e \<Longrightarrow> e = TypeError"
  by (auto simp add: lyrics_from_decoded_def act_defs Let_def py_len_has_len
           split: sum.splits prod.splits option.splits pyval.splits list.splits if_splits)

lemma request_and_decode_unfold:
  "request_and_decode env url t lvl w =
     (case urlopen env url t of
        Inl e \<Rightarrow> (Inr (PyNone, PyNone), w\<lparr>trace := trace w @ [HttpGet url t, Log lvl (Some e)]\<rparr>)
      | Inr resp \<Rightarrow>
          (case read_body env url t of
             Inl e \<Rightarrow> (Inr (PyNone, PyNone),
                       w\<lparr>trace := trace w @ [HttpGet url t, Log INFO None, Log lvl (Some e)]\<rparr>)
           | Inr data \<Rightarrow>
               (case decode_json env data of
                  Inl e \<Rightarrow> (Inr (PyNone, PyNone),
                            w\<lparr>trace := trace w @
                               [HttpGet url t, Log INFO None, Log lvl (Some e)]\<rparr>)
                | Inr obj \<Rightarrow>
                    lyrics_from_decoded obj
                      (w\<lparr>trace := trace w @ [HttpGet url t, Log INFO None]\<rparr>))))"
  by (simp add: request_and_decode_def http_get_def act_defs split: sum.splits)

lemma request_and_decode_frame:
  "fs (snd (request_and_decode env url t lvl w)) = fs w \<and>
   effects (trace (snd (request_and_decode env url t lvl w))) = effects (trace w) @ [HttpGet url t]"
  by (simp add: request_and_decode_unfold lyrics_from_decoded_quiet split: sum.splits)

lemma request_and_decode_fst:
  "fst (request_and_decode env url t lvl w) =
     (case transport env url t of
        Inl e \<Rightarrow> Inr (PyNone, PyNone)
      | Inr data \<Rightarrow>
          (case decode_json env data of
             Inl e \<Rightarrow> Inr (PyNone, PyNone)
           | Inr obj \<Rightarrow> fst (lyrics_from_decoded obj w)))"
  using lyrics_from_decoded_fst_indep [of _ "w\<lparr>trace := trace w @ [HttpGet url t, Log INFO None]\<rparr>" w]
  by (simp add: request_and_decode_unfold transport_def split: sum.splits)

lemma try_except_log_returns:
  "fst (try_except f (\<lambda>exc. log_msg l (Some exc)) w) = Inr ()"
  by (cases "f w"; cases "fst (f w)") (auto simp: try_except_def log_msg_def emit_def)

lemma fetch_unfold:
  "fetch_lyrics_from_lrclib env q w =
     (case urlencode env q of
        Inl e \<Rightarrow> (Inl e, w)
      | Inr enc \<Rightarrow>
          (case create_unverified_context env of
             Inl e \<Rightarrow> (Inl e, w\<lparr>trace := trace w @ [Log INFO None]\<rparr>)
           | Inr ctx \<Rightarrow>
               request_and_decode env (LRCLIB_URL @ enc) 15 ERROR
                 (w\<lparr>trace := trace w @ [Log INFO None]\<rparr>)))"
  by (simp add: fetch_lyrics_from_lrclib_def act_defs split: sum.splits)

lemma fetch_v1_0_unfold:
  "fetch_lyrics_from_lrclib_v1_0 env q w =
     (case urlencode env q of
        Inl e \<Rightarrow> (Inl e, w)
      | Inr enc \<Rightarrow>
          (case create_unverified_context env of
             Inl e \<Rightarrow> (Inl e, w\<lparr>trace := trace w @ [Log INFO None]\<rparr>)
           | Inr ctx \<Rightarrow>
               request_and_decode env (LRCLIB_URL_v1_0 @ ''?'' @ enc) 10 WARNING
                 (w\<lparr>trace := trace w @ [Log INFO None]\<rparr>)))"
  by (simp add: fetch_lyrics_from_lrclib_v1_0_def act_defs split: sum.splits)

lemma request_and_decode_paired:
  assumes "fst (request_and_decode env url t lvl w) = Inr (lyrics, is_synced)"
  shows "(lyrics = PyNone \<and> is_synced = PyNone) \<or>
     (truthy lyrics \<and> has_len lyrics \<and> (is_synced = PyBool True \<or> is_synced = PyBool False))"
  using assms lyrics_from_decoded_paired [of _ w lyrics is_synced]
  by (auto simp: request_and_decode_fst split: sum.splits)

lemma request_and_decode_raises:
  "fst (request_and_decode env url t lvl w) = Inl e \<Longrightarrow> e = TypeError"
  using lyrics_from_decoded_raises [of _ w e]
  by (auto simp: request_and_decode_fst split: sum.splits)

lemma fetch_frame:
  "fs (snd (fetch_lyrics_from_lrclib env q w)) = fs w \<and>
   (effects (trace (snd (fetch_lyrics_from_lrclib env q w))) = effects (trace w) \<or>
    (\<exists>u. effects (trace (snd (fetch_lyrics_from_lrclib env q w))) = effects (trace w) @ [HttpGet u 15]))"
  by (simp add: fetch_unfold request_and_decode_frame split: sum.splits)

lemma fetch_v1_0_frame:
  "fs (snd (fetch_lyrics_from_lrclib_v1_0 env q w)) = fs w \<and>
   (effects (trace (snd (fetch_lyrics_from_lrclib_v1_0 env q w))) = effects (trace w) \<or>
    (\<exists>u. effects (trace (snd (fetch_lyrics_from_lrclib_v1_0 env q w))) = effects (trace w) @ [HttpGet u 10]))"
  by (simp add: fetch_v1_0_unfold request_and_decode_frame split: sum.splits)

lemma fetch_paired:
  assumes "fst (fetch_lyrics_from_lrclib env q w) = Inr (lyrics, is_synced)"
  shows "(lyrics = PyNone \<and> is_synced = PyNone) \<or>
     (truthy lyrics \<and> has_len lyrics \<and> (is_synced = PyBool True \<or> is_synced = PyBool False))"
  using assms request_and_decode_paired [of env _ 15 ERROR _ lyrics is_synced]
  by (auto simp: fetch_unfold split: sum.splits)

lemma fetch_v1_0_paired:
  assumes "fst (fetch_lyrics_from_lrclib_v1_0 env q w) = Inr (lyrics, is_synced)"
  shows "(lyrics = PyNone \<and> is_synced = PyNone) \<or>
     (truthy lyrics \<and> has_len lyrics \<and> (is_synced = PyBool True \<or> is_synced = PyBool False))"
  using assms request_and_decode_paired [of env _ 10 WARNING _ lyrics is_synced]
  by (auto simp: fetch_v1_0_unfold split: sum.splits)

lemma fetch_raises:
  assumes "fst (fetch_lyrics_from_lrclib env q w) = Inl e"
  shows "urlencode env q = Inl e \<or> create_unverified_context env = Inl e \<or> e = TypeError"
  using assms request_and_decode_raises [of env _ 15 ERROR _ e]
  by (auto simp: fetch_unfold split: sum.splits)

lemma fetch_v1_0_raises:
  assumes "fst (fetch_lyrics_from_lrclib_v1_0 env q w) = Inl e"
  shows "urlencode env q = Inl e \<or> create_unverified_context env = Inl e \<or> e = TypeError"
  using assms request_and_decode_raises [of env _ 10 WARNING _ e]
  by (auto simp: fetch_v1_0_unfold split: sum.splits)

lemma write_sidecar_for_path_returns:
  "fst (write_sidecar_for_path env audio_path lyrics is_synced w) = Inr ()"
  by (simp add: write_sidecar_for_path_def Let_def bnd_def log_msg_def emit_def
        try_except_log_returns [unfolded log_msg_def emit_def])

lemma write_sidecar_for_path_fs:
  "fs (snd (write_sidecar_for_path env audio_path lyrics is_synced w)) =
     (case open_w env (sidecar_path audio_path is_synced) of
        Inl e \<Rightarrow> fs w
      | Inr u \<Rightarrow> (fs w)(sidecar_path audio_path is_synced \<mapsto>
                    written env (sidecar_path audio_path is_synced) lyrics))"
  by (simp add: write_sidecar_for_path_def open_for_writing_def file_write_def written_def
        act_defs Let_def split: sum.splits pyval.splits prod.splits)

lemma write_sidecar_for_path_effects:
  "effects (trace (snd (write_sidecar_for_path env audio_path lyrics is_synced w))) =
     effects (trace w) @
     (case open_w env (sidecar_path audio_path is_synced) of
        Inl e \<Rightarrow> []
      | Inr u \<Rightarrow>
          FileOpen (sidecar_path audio_path is_synced) #
          (case lyrics of
             PyStr text \<Rightarrow>
               (case write_str env (sidecar_path audio_path is_synced) text of
                  Inl e \<Rightarrow> []
                | Inr u \<Rightarrow> [FileWrite (sidecar_path audio_path is_synced)])
           | _ \<Rightarrow> []))"
  by (simp add: write_sidecar_for_path_def open_for_writing_def file_write_def
        act_defs Let_def split: sum.splits pyval.splits prod.splits)

lemma fetch_effects_ok:
  "fst (fetch_lyrics_from_lrclib env q w) = Inr x \<Longrightarrow>
   \<exists>u. effects (trace (snd (fetch_lyrics_from_lrclib env q w))) = effects (trace w) @ [HttpGet u 15]"
  by (auto simp: fetch_unfold request_and_decode_frame split: sum.splits)

lemma fetch_v1_0_effects_ok:
  "fst (fetch_lyrics_from_lrclib_v1_0 env q w) = Inr x \<Longrightarrow>
   \<exists>u. effects (trace (snd (fetch_lyrics_from_lrclib_v1_0 env q w))) = effects (trace w) @ [HttpGet u 10]"
  by (auto simp: fetch_v1_0_unfold request_and_decode_frame split: sum.splits)

lemma write_sidecar_for_path_summary:
  "\<exists>w'. write_sidecar_for_path env p lyrics (PyBool b) w = (Inr (), w') \<and>
     ((fs w' = fs w \<and> effects (trace w') = effects (trace w)) \<or>
      (\<exists>c rest. effects (trace w') = effects (trace w) @ FileOpen (sidecar_path p (PyBool b)) # rest
          \<and> (rest = [] \<or> rest = [FileWrite (sidecar_path p (PyBool b))])
          \<and> fs w' = (fs w)(sidecar_path p (PyBool b) \<mapsto> c)))"
proof -
  let ?r = "write_sidecar_for_path env p lyrics (PyBool b) w"
  let ?o = "sidecar_path p (PyBool b)"
  have r: "?r = (Inr (), snd ?r)"
    using write_sidecar_for_path_returns [of env p lyrics "PyBool b" w]
    by (metis prod.collapse)
  show ?thesis
  proof (cases "open_w env ?o")
    case (Inl e)
    then have "fs (snd ?r) = fs w \<and> effects (trace (snd ?r)) = effects (trace w)"
      by (simp add: write_sidecar_for_path_fs write_sidecar_for_path_effects)
    with r show ?thesis by metis
  next
    case (Inr u)
    then have f: "fs (snd ?r) = (fs w)(?o \<mapsto> written env ?o lyrics)"
      by (simp add: write_sidecar_for_path_fs)
    from Inr have "\<exists>rest. effects (trace (snd ?r)) = effects (trace w) @ FileOpen ?o # rest
          \<and> (rest = [] \<or> rest = [FileWrite ?o])"
      by (simp add: write_sidecar_for_path_effects split: sum.splits pyval.splits)
    with f r show ?thesis by metis
  qed
qed

lemma worker_for_file_summary:
  "\<exists>w'. worker_for_file env p s w = (Inr (), w') \<and>
     ((fs w' = fs w \<and>
        (effects (trace w') = effects (trace w) \<or>
         (\<exists>u. effects (trace w') = effects (trace w) @ [HttpGet u 15]))) \<or>
      (\<exists>u b c rest.
          effects (trace w') =
            effects (trace w) @ HttpGet u 15 # FileOpen (sidecar_path p (PyBool b)) # rest
          \<and> (rest = [] \<or> rest = [FileWrite (sidecar_path p (PyBool b))])
          \<and> fs w' = (fs w)(sidecar_path p (PyBool b) \<mapsto> c)))"
proof -
  let ?w1 = "w\<lparr>trace := trace w @ [Log INFO None]\<rparr>"
  let ?B = "build_query_from_snapshot env s ?w1"
  obtain r w2 where B: "?B = (Inr r, w2)"
    using build_query_from_snapshot_fst [of env s ?w1] by (cases ?B) auto
  have w2: "fs w2 = fs w" "effects (trace w2) = effects (trace w)"
    using build_query_from_snapshot_quiet [of env s ?w1] B by auto
  have start: "log_msg INFO None w = (Inr (), ?w1)" by (simp add: log_msg_def emit_def)
  show ?thesis
  proof (cases r)
    case None
    then have "worker_for_file env p s w = (Inr (), w2)"
      using B by (simp add: worker_for_file_def try_except_def bnd_def log_msg_def emit_def ret_def)
    with w2 show ?thesis by simp
  next
    case (Some q)
    let ?F = "fetch_lyrics_from_lrclib env q w2"
    obtain fr w3 where F: "?F = (fr, w3)" by (cases ?F) auto
    have w3fs: "fs w3 = fs w" using fetch_frame [of env q w2] F w2 by simp
    have w3ef: "effects (trace w3) = effects (trace w) \<or>
        (\<exists>u. effects (trace w3) = effects (trace w) @ [HttpGet u 15])"
      using fetch_frame [of env q w2] F w2 by simp
    show ?thesis
    proof (cases fr)
      case (Inl e)
      then have "worker_for_file env p s w = (Inr (), w3\<lparr>trace := trace w3 @ [Log ERROR (Some e)]\<rparr>)"
        using B F Some
        by (simp add: worker_for_file_def try_except_def bnd_def log_msg_def emit_def ret_def)
      with w3fs w3ef show ?thesis by simp
    next
      case (Inr pair)
      obtain lyrics is_synced where pair: "pair = (lyrics, is_synced)" by (cases pair) auto
      show ?thesis
      proof (cases "truthy lyrics")
        case False
        then have "worker_for_file env p s w = (Inr (), w3\<lparr>trace := trace w3 @ [Log INFO None]\<rparr>)"
          using B F Some Inr pair
          by (simp add: worker_for_file_def try_except_def bnd_def log_msg_def emit_def ret_def)
        with w3fs w3ef show ?thesis by simp
      next
        case True
        have "fst ?F = Inr (lyrics, is_synced)" using F Inr pair by simp
        from fetch_paired [OF this] True obtain b where b: "is_synced = PyBool b" by auto
        from fetch_effects_ok [of env q w2 "(lyrics, is_synced)"] F Inr pair w2
        obtain u where u: "effects (trace w3) = effects (trace w) @ [HttpGet u 15]" by auto
        from write_sidecar_for_path_summary [of env p lyrics b w3]
        obtain w4 where W: "write_sidecar_for_path env p lyrics (PyBool b) w3 = (Inr (), w4)"
          and w4: "(fs w4 = fs w3 \<and> effects (trace w4) = effects (trace w3)) \<or>
            (\<exists>c rest. effects (trace w4) = effects (trace w3) @ FileOpen (sidecar_path p (PyBool b)) # rest
              \<and> (rest = [] \<or> rest = [FileWrite (sidecar_path p (PyBool b))])
              \<and> fs w4 = (fs w3)(sidecar_path p (PyBool b) \<mapsto> c))"
          by blast
        have "worker_for_file env p s w = (Inr (), w4)"
          using B F Some Inr pair True b W
          by (simp add: worker_for_file_def try_except_def bnd_def log_msg_def emit_def ret_def)
        moreover have "(fs w4 = fs w \<and> (\<exists>u. effects (trace w4) = effects (trace w) @ [HttpGet u 15])) \<or>
          (\<exists>u b c rest.
            effects (trace w4) =
              effects (trace w) @ HttpGet u 15 # FileOpen (sidecar_path p (PyBool b)) # rest
            \<and> (rest = [] \<or> rest = [FileWrite (sidecar_path p (PyBool b))])
            \<and> fs w4 = (fs w)(sidecar_path p (PyBool b) \<mapsto> c))"
        proof -
          from w4 consider
              (quiet) "fs w4 = fs w3" "effects (trace w4) = effects (trace w3)"
            | (opened) c rest where
                "effects (trace w4) = effects (trace w3) @ FileOpen (sidecar_path p (PyBool b)) # rest"
                "rest = [] \<or> rest = [FileWrite (sidecar_path p (PyBool b))]"
                "fs w4 = (fs w3)(sidecar_path p (PyBool b) \<mapsto> c)"
            by blast
          then show ?thesis
          proof cases
            case quiet
            with u w3fs show ?thesis by simp
          next
            case opened
            then have "effects (trace w4) =
                effects (trace w) @ HttpGet u 15 # FileOpen (sidecar_path p (PyBool b)) # rest"
              "fs w4 = (fs w)(sidecar_path p (PyBool b) \<mapsto> c)"
              using u w3fs by simp_all
            with opened(2) show ?thesis by blast
          qed
        qed
        ultimately show ?thesis by blast
      qed
    qed
  qed
qed

subsection \<open>Paths\<close>

lemma take_rfind: "take (nat (rfind c p + 1)) p = rev (dropWhile (\<lambda>x. x \<noteq> c) (rev p))"
proof (cases "c \<in> set p")
  case False
  then have "dropWhile (\<lambda>x. x \<noteq> c) (rev p) = []" by auto
  with False show ?thesis by (simp add: rfind_def)
next
  case True
  let ?k = "length (takeWhile (\<lambda>x. x \<noteq> c) (rev p))"
  have k: "?k \<le> length p" using length_takeWhile_le [of "\<lambda>x. x \<noteq> c" "rev p"] by simp
  have "rev (dropWhile (\<lambda>x. x \<noteq> c) (rev p)) = rev (drop ?k (rev p))"
    by (simp add: dropWhile_eq_drop)
  also have "\<dots> = take (length p - ?k) p" by (simp add: rev_drop)
  finally show ?thesis using True k by (simp add: rfind_def nat_diff_distrib')
qed

lemma drop_rfind: "drop (nat (rfind c p + 1)) p = rev (takeWhile (\<lambda>x. x \<noteq> c) (rev p))"
proof -
  have "take (nat (rfind c p + 1)) p @ drop (nat (rfind c p + 1)) p
      = rev (dropWhile (\<lambda>x. x \<noteq> c) (rev p)) @ rev (takeWhile (\<lambda>x. x \<noteq> c) (rev p))"
    by (simp flip: rev_append)
  then show ?thesis by (simp add: take_rfind)
qed

lemma all_sep_iff: "h = replicate (length h) c \<longleftrightarrow> (\<forall>x\<in>set h. x = c)"
  by (metis in_set_replicate replicate_length_same)

lemma rstrip_sep_proper:
  assumes "\<exists>x\<in>set h. x \<noteq> CHR ''/''"
  shows "rstrip_sep h \<noteq> [] \<and> last (rstrip_sep h) \<noteq> CHR ''/''"
proof -
  let ?d = "dropWhile (\<lambda>x. x = CHR ''/'') (rev h)"
  from assms have ne: "?d \<noteq> []" by (auto simp: dropWhile_eq_Nil_conv)
  then have "hd ?d \<noteq> CHR ''/''" using hd_dropWhile [of "\<lambda>x. x = CHR ''/''" "rev h"] by simp
  with ne show ?thesis by (simp add: rstrip_sep_def last_rev)
qed

lemma rstrip_sep_snoc: "h \<noteq> [] \<Longrightarrow> last h \<noteq> CHR ''/'' \<Longrightarrow> rstrip_sep (h @ ''/'') = h"
  by (cases h rule: rev_cases) (auto simp: rstrip_sep_def)

lemma path_split_tail_no_sep: "CHR ''/'' \<notin> set (snd (path_split p))"
proof -
  have "snd (path_split p) = rev (takeWhile (\<lambda>x. x \<noteq> CHR ''/'') (rev p))"
    by (simp add: path_split_def Let_def drop_rfind)
  moreover have "CHR ''/'' \<notin> set (takeWhile (\<lambda>x. x \<noteq> CHR ''/'') (rev p))"
    by (auto dest: set_takeWhileD)
  ultimately show ?thesis by simp
qed

lemma path_split_head_cases:
  "fst (path_split p) = [] \<or> (fst (path_split p) \<noteq> [] \<and> (\<forall>x\<in>set (fst (path_split p)). x = CHR ''/''))
     \<or> (fst (path_split p) \<noteq> [] \<and> last (fst (path_split p)) \<noteq> CHR ''/'')"
proof -
  let ?h = "take (nat (rfind CHR ''/'' p + 1)) p"
  show ?thesis
  proof (cases "?h \<noteq> [] \<and> ?h \<noteq> replicate (length ?h) CHR ''/''")
    case True
    then have "\<not> (\<forall>x\<in>set ?h. x = CHR ''/'')" using all_sep_iff [of ?h "CHR ''/''"] by blast
    then have "\<exists>x\<in>set ?h. x \<noteq> CHR ''/''" by blast
    from rstrip_sep_proper [OF this]
    have "rstrip_sep ?h \<noteq> [] \<and> last (rstrip_sep ?h) \<noteq> CHR ''/''" .
    moreover have "fst (path_split p) = rstrip_sep ?h"
      using True by (simp add: path_split_def Let_def)
    ultimately show ?thesis by simp
  next
    case False
    then have eq: "fst (path_split p) = ?h" by (auto simp: path_split_def Let_def)
    from False have "?h = [] \<or> (\<forall>x\<in>set ?h. x = CHR ''/'')"
      using all_sep_iff [of ?h "CHR ''/''"] by blast
    then show ?thesis unfolding eq by blast
  qed
qed

lemma path_split_append:
  assumes "CHR ''/'' \<notin> set t" and "h = [] \<or> last h = CHR ''/''"
  shows "path_split (h @ t) =
    (if h \<noteq> [] \<and> (\<exists>x\<in>set h. x \<noteq> CHR ''/'') then rstrip_sep h else h, t)"
proof -
  have tw: "takeWhile (\<lambda>x. x \<noteq> CHR ''/'') (rev t @ rev h) = rev t"
    using assms by (cases h rule: rev_cases) (auto simp: takeWhile_append)
  have dw: "dropWhile (\<lambda>x. x \<noteq> CHR ''/'') (rev t @ rev h) = rev h"
    using assms by (cases h rule: rev_cases) (auto simp: dropWhile_append)
  have hd: "take (nat (rfind CHR ''/'' (h @ t) + 1)) (h @ t) = h"
    by (simp only: take_rfind rev_append dw rev_rev_ident)
  have tl: "drop (nat (rfind CHR ''/'' (h @ t) + 1)) (h @ t) = t"
    by (simp only: drop_rfind rev_append tw rev_rev_ident)
  have "(h \<noteq> replicate (length h) CHR ''/'') = (\<exists>x\<in>set h. x \<noteq> CHR ''/'')"
    using all_sep_iff [of h "CHR ''/''"] by blast
  then show ?thesis
    unfolding path_split_def Let_def hd tl by simp
qed

lemma path_split_join:
  assumes t: "t \<noteq> []" "CHR ''/'' \<notin> set t"
    and d: "d = [] \<or> (d \<noteq> [] \<and> (\<forall>x\<in>set d. x = CHR ''/'')) \<or> (d \<noteq> [] \<and> last d \<noteq> CHR ''/'')"
  shows "path_split (path_join d t) = (d, t)"
proof -
  from t have hd: "hd t \<noteq> CHR ''/''" by (cases t) auto
  from d consider (empty) "d = []" | (root) "d \<noteq> []" "\<forall>x\<in>set d. x = CHR ''/''"
    | (proper) "d \<noteq> []" "last d \<noteq> CHR ''/''" by blast
  then show ?thesis
  proof cases
    case empty
    with hd t show ?thesis using path_split_append [of t "[]"] by (simp add: path_join_def)
  next
    case root
    then have l: "last d = CHR ''/''" by (metis last_in_set)
    with root hd t show ?thesis using path_split_append [of t d] by (auto simp: path_join_def)
  next
    case proper
    then have j: "path_join d t = (d @ ''/'') @ t" using hd t by (simp add: path_join_def)
    have "\<exists>x\<in>set (d @ ''/''). x \<noteq> CHR ''/''" using proper by (metis Un_iff last_in_set set_append)
    then show ?thesis
      unfolding j using path_split_append [of t "d @ ''/''"] t proper
      by (simp add: rstrip_sep_snoc)
  qed
qed

lemma splitext_stem_prefix: "\<exists>r. p = fst (splitext p) @ r"
proof (cases "rfind CHR ''.'' p > rfind CHR ''/'' p
    \<and> nondot_before p (nat (rfind CHR ''/'' p + 1)) (nat (rfind CHR ''.'' p))")
  case True
  then have "fst (splitext p) = take (nat (rfind CHR ''.'' p)) p"
    by (simp add: splitext_def Let_def)
  then have "p = fst (splitext p) @ drop (nat (rfind CHR ''.'' p)) p" by simp
  then show ?thesis ..
next
  case False
  then have "fst (splitext p) = p" by (auto simp: splitext_def Let_def)
  then have "p = fst (splitext p) @ []" by simp
  then show ?thesis ..
qed

lemma sidecar_path_split:
  "path_split (sidecar_path audio_path (PyBool synced)) =
     (fst (path_split audio_path),
      fst (splitext (snd (path_split audio_path))) @ (if synced then ''.lrc'' else ''.txt''))"
proof -
  let ?d = "fst (path_split audio_path)" and ?f = "snd (path_split audio_path)"
  let ?ext = "if synced then ''.lrc'' else ''.txt''"
  obtain r where "?f = fst (splitext ?f) @ r" using splitext_stem_prefix by blast
  then have "set (fst (splitext ?f)) \<subseteq> set ?f" by (metis Un_upper1 set_append)
  with path_split_tail_no_sep [of audio_path]
  have "CHR ''/'' \<notin> set (fst (splitext ?f) @ ?ext)" by auto
  moreover have "fst (splitext ?f) @ ?ext \<noteq> []" by simp
  ultimately have "path_split (path_join ?d (fst (splitext ?f) @ ?ext)) = (?d, fst (splitext ?f) @ ?ext)"
    using path_split_head_cases [of audio_path] by (intro path_split_join) auto
  then show ?thesis
    by (simp add: sidecar_path_def Let_def split_beta)
qed


lemma sidecar_path_song:
  "sidecar_path ''/music/a/Song.flac'' (PyBool True) = ''/music/a/Song.lrc''"
  "sidecar_path ''/music/a/Song.flac'' (PyBool False) = ''/music/a/Song.txt''"
  by code_simp+

lemma path_split_song:
  "path_split ''/music/a/Song.lrc'' = (''/music/a'', ''Song.lrc'')"
  "path_split ''/music/a/Song.flac'' = (''/music/a'', ''Song.flac'')"
  "splitext ''Song.flac'' = (''Song'', ''.flac'')"
  by code_simp+

lemma write_sidecar_for_file_unfold:
  "filename file = Inr audio_path \<Longrightarrow>
   write_sidecar_for_file env file lyrics is_synced w =
     write_sidecar_for_path env audio_path lyrics is_synced w"
  by (simp add: write_sidecar_for_file_def write_sidecar_for_path_def bnd_def lift_def)

subsection \<open>The hooks and the client as a whole\<close>

lemma post_save_unfold:
  "lrclib_simple_file_post_save env file w =
     (case filename file of
        Inl e \<Rightarrow> (Inr (), w\<lparr>trace := trace w @ [Log ERROR (Some e)]\<rparr>)
      | Inr audio_path \<Rightarrow>
          (case read_tags file of
             Inl e \<Rightarrow> (Inr (), w\<lparr>trace := trace w @ [Log ERROR (Some e)]\<rparr>)
           | Inr snapshot \<Rightarrow>
               (case thread_start env of
                  Inl e \<Rightarrow> (Inr (), w\<lparr>trace := trace w @ [Log INFO None, Log ERROR (Some e)]\<rparr>)
                | Inr u \<Rightarrow>
                    (Inr (), w\<lparr>trace := trace w @
                       [Log INFO None, ThreadStart audio_path snapshot True]\<rparr>))))"
  by (simp add: lrclib_simple_file_post_save_def read_tags_def act_defs split: sum.splits)

lemma post_save_v1_0_returns:
  "fst (lrclib_simple_file_post_save_v1_0 env file w) = Inr ()"
  unfolding lrclib_simple_file_post_save_v1_0_def by (rule try_except_log_returns)

lemma worker_for_file_returns: "fst (worker_for_file env p s w) = Inr ()"
  unfolding worker_for_file_def by (rule try_except_log_returns)

lemmas eval_defs =
  duration_of_def parse_length_def py_int_def strip_def is_space_def is_digit_def horner_def
  digit_val_def Let_def make_snapshot_def snapshot_xyz_def env_online_def world_empty_def
  file_song_def query_xyz_def make_query_def transport_def

lemmas run_defs =
  build_query_from_file_def build_query_from_snapshot_def
  fetch_unfold fetch_v1_0_unfold request_and_decode_unfold lyrics_from_decoded_dict
  write_sidecar_for_file_def write_sidecar_for_path_def open_for_writing_def file_write_def
  sidecar_path_song act_defs eval_defs response_synced_def dict_get_def
  LRCLIB_URL_v1_0_def LRCLIB_URL_def env_slow_def env_disk_full_def world_with_sidecar_def

lemma fetch_fst:
  "fst (fetch_lyrics_from_lrclib env q w) =
     (case urlencode env q of
        Inl e \<Rightarrow> Inl e
      | Inr enc \<Rightarrow>
          (case create_unverified_context env of
             Inl e \<Rightarrow> Inl e
           | Inr ctx \<Rightarrow>
               (case transport env (LRCLIB_URL @ enc) 15 of
                  Inl e \<Rightarrow> Inr (PyNone, PyNone)
                | Inr data \<Rightarrow>
                    (case decode_json env data of
                       Inl e \<Rightarrow> Inr (PyNone, PyNone)
                     | Inr obj \<Rightarrow> fst (lyrics_from_decoded obj w)))))"
  using lyrics_from_decoded_fst_indep [of _ "w\<lparr>trace := trace w @ [Log INFO None]\<rparr>" w]
  by (simp add: fetch_unfold request_and_decode_fst split: sum.splits)

lemma fetch_v1_0_fst:
  "fst (fetch_lyrics_from_lrclib_v1_0 env q w) =
     (case urlencode env q of
        Inl e \<Rightarrow> Inl e
      | Inr enc \<Rightarrow>
          (case create_unverified_context env of
             Inl e \<Rightarrow> Inl e
           | Inr ctx \<Rightarrow>
               (case transport env (LRCLIB_URL_v1_0 @ ''?'' @ enc) 10 of
                  Inl e \<Rightarrow> Inr (PyNone, PyNone)
                | Inr data \<Rightarrow>
                    (case decode_json env data of
                       Inl e \<Rightarrow> Inr (PyNone, PyNone)
                     | Inr obj \<Rightarrow> fst (lyrics_from_decoded obj w)))))"
  using lyrics_from_decoded_fst_indep [of _ "w\<lparr>trace := trace w @ [Log INFO None]\<rparr>" w]
  by (simp add: fetch_v1_0_unfold request_and_decode_fst split: sum.splits)

lemma same_url: "LRCLIB_URL @ enc = LRCLIB_URL_v1_0 @ ''?'' @ enc"
  by (simp add: LRCLIB_URL_def LRCLIB_URL_v1_0_def)

lemma fetch_fst_indep:
  "fst (fetch_lyrics_from_lrclib env q w) = fst (fetch_lyrics_from_lrclib env q w')"
  using lyrics_from_decoded_fst_indep [of _ w w']
  by (simp add: fetch_fst split: sum.splits)

lemma worker_for_file_logs_client_error:
  assumes b: "fst (build_query_from_snapshot env s w) = Inr (Some q)"
    and f: "fst (fetch_lyrics_from_lrclib env q w) = Inl e"
  shows "Log ERROR (Some e) \<in> set (trace (snd (worker_for_file env p s w)))"
proof -
  let ?w1 = "w\<lparr>trace := trace w @ [Log INFO None]\<rparr>"
  have "fst (build_query_from_snapshot env s ?w1) = Inr (Some q)"
    using b by (simp add: build_query_from_snapshot_fst)
  then obtain w2 where B: "build_query_from_snapshot env s ?w1 = (Inr (Some q), w2)"
    by (cases "build_query_from_snapshot env s ?w1") auto
  have "fst (fetch_lyrics_from_lrclib env q w2) = Inl e"
    using f fetch_fst_indep [of env q w2 w] by simp
  then obtain w3 where F: "fetch_lyrics_from_lrclib env q w2 = (Inl e, w3)"
    by (cases "fetch_lyrics_from_lrclib env q w2") auto
  have "worker_for_file env p s w = (Inr (), w3\<lparr>trace := trace w3 @ [Log ERROR (Some e)]\<rparr>)"
    using B F by (simp add: worker_for_file_def try_except_def bnd_def log_msg_def emit_def ret_def)
  then show ?thesis by simp
qed

lemma worker_for_file_fs:
  "fs (snd (worker_for_file env p s w)) = fs w \<or>
   (\<exists>u b c rest.
      effects (trace (snd (worker_for_file env p s w))) =
        effects (trace w) @ HttpGet u 15 # FileOpen (sidecar_path p (PyBool b)) # rest
      \<and> fs (snd (worker_for_file env p s w)) = (fs w)(sidecar_path p (PyBool b) \<mapsto> c))"
proof -
  from worker_for_file_summary [of env p s w]
  obtain w' where w': "worker_for_file env p s w = (Inr (), w')"
    and c: "(fs w' = fs w \<and>
        (effects (trace w') = effects (trace w) \<or>
         (\<exists>u. effects (trace w') = effects (trace w) @ [HttpGet u 15]))) \<or>
      (\<exists>u b c rest.
          effects (trace w') =
            effects (trace w) @ HttpGet u 15 # FileOpen (sidecar_path p (PyBool b)) # rest
          \<and> (rest = [] \<or> rest = [FileWrite (sidecar_path p (PyBool b))])
          \<and> fs w' = (fs w)(sidecar_path p (PyBool b) \<mapsto> c))"
    by blast
  from c have "fs w' = fs w \<or>
      (\<exists>u b c rest.
          effects (trace w') =
            effects (trace w) @ HttpGet u 15 # FileOpen (sidecar_path p (PyBool b)) # rest
          \<and> fs w' = (fs w)(sidecar_path p (PyBool b) \<mapsto> c))"
    by blast
  with w' show ?thesis by simp
qed

lemma build_query_from_snapshot_logs_parse_error:
  "truthy_str (snapshot ''~length'')
   \<and> parse_length (int_max_str_digits env) (or_empty (snapshot ''~length'')) = Inl e \<longrightarrow>
   Log WARNING (Some e) \<in> set (trace (snd (build_query_from_snapshot env snapshot w)))"
  by (simp add: build_query_from_snapshot_def act_defs Let_def)

lemma worker_for_file_opens:
  assumes "FileOpen x \<in> set (effects (trace (snd (worker_for_file env p s w))))"
  shows "FileOpen x \<in> set (effects (trace w)) \<or> x = sidecar_path p (PyBool True)
     \<or> x = sidecar_path p (PyBool False)"
proof -
  from worker_for_file_summary [of env p s w]
  obtain w' where w': "worker_for_file env p s w = (Inr (), w')"
    and c: "(fs w' = fs w \<and>
        (effects (trace w') = effects (trace w) \<or>
         (\<exists>u. effects (trace w') = effects (trace w) @ [HttpGet u 15]))) \<or>
      (\<exists>u b c rest.
          effects (trace w') =
            effects (trace w) @ HttpGet u 15 # FileOpen (sidecar_path p (PyBool b)) # rest
          \<and> (rest = [] \<or> rest = [FileWrite (sidecar_path p (PyBool b))])
          \<and> fs w' = (fs w)(sidecar_path p (PyBool b) \<mapsto> c))"
    by blast
  from assms w' have x: "FileOpen x \<in> set (effects (trace w'))" by simp
  from c consider (quiet) "effects (trace w') = effects (trace w)"
    | (req) u where "effects (trace w') = effects (trace w) @ [HttpGet u 15]"
    | (opened) u b rest where "effects (trace w') =
            effects (trace w) @ HttpGet u 15 # FileOpen (sidecar_path p (PyBool b)) # rest"
          "rest = [] \<or> rest = [FileWrite (sidecar_path p (PyBool b))]"
    by blast
  then show ?thesis
  proof cases
    case quiet
    with x show ?thesis by simp
  next
    case req
    with x show ?thesis by simp
  next
    case opened
    with x have "FileOpen x \<in> set (effects (trace w)) \<or> x = sidecar_path p (PyBool b)"
      by auto
    then show ?thesis by (cases b) auto
  qed
qed

lemma sidecar_path_suffix:
  "\<exists>stem. sidecar_path p is_synced = stem @ (if truthy is_synced then ''.lrc'' else ''.txt'')"
proof -
  let ?d = "fst (path_split p)" and ?st = "fst (splitext (snd (path_split p)))"
  let ?ext = "if truthy is_synced then ''.lrc'' else ''.txt''"
  have "sidecar_path p is_synced = path_join ?d (?st @ ?ext)"
    by (simp add: sidecar_path_def Let_def split_beta)
  moreover have "path_join ?d (?st @ ?ext) = ?st @ ?ext
      \<or> path_join ?d (?st @ ?ext) = (?d @ ?st) @ ?ext
      \<or> path_join ?d (?st @ ?ext) = (?d @ ''/'' @ ?st) @ ?ext"
    by (simp add: path_join_def)
  ultimately show ?thesis by metis
qed

lemma post_save_v1_0_fs:
  "fs (snd (lrclib_simple_file_post_save_v1_0 env file w)) = fs w \<or>
   (\<exists>p b c. filename file = Inr p \<and>
      fs (snd (lrclib_simple_file_post_save_v1_0 env file w)) = (fs w)(sidecar_path p (PyBool b) \<mapsto> c))"
proof (cases "filename file")
  case (Inl e)
  then show ?thesis
    by (simp add: lrclib_simple_file_post_save_v1_0_def act_defs)
next
  case (Inr p)
  let ?w1 = "w\<lparr>trace := trace w @ [Log INFO None]\<rparr>"
  let ?B = "build_query_from_file env file ?w1"
  obtain br w2 where B: "?B = (br, w2)" by (cases ?B) auto
  have w2: "fs w2 = fs w" using build_query_from_file_quiet [of env "file" ?w1] B by simp
  show ?thesis
  proof (cases br)
    case (Inl e)
    then have "lrclib_simple_file_post_save_v1_0 env file w =
        (Inr (), w2\<lparr>trace := trace w2 @ [Log ERROR (Some e)]\<rparr>)"
      using Inr B by (simp add: lrclib_simple_file_post_save_v1_0_def act_defs)
    with w2 show ?thesis by simp
  next
    case r: (Inr qo)
    show ?thesis
    proof (cases qo)
      case None
      then have "lrclib_simple_file_post_save_v1_0 env file w = (Inr (), w2)"
        using Inr B r by (simp add: lrclib_simple_file_post_save_v1_0_def act_defs)
      with w2 show ?thesis by simp
    next
      case (Some q)
      let ?F = "fetch_lyrics_from_lrclib_v1_0 env q w2"
      obtain fr w3 where F: "?F = (fr, w3)" by (cases ?F) auto
      have w3: "fs w3 = fs w" using fetch_v1_0_frame [of env q w2] F w2 by simp
      show ?thesis
      proof (cases fr)
        case (Inl e)
        then have "lrclib_simple_file_post_save_v1_0 env file w =
            (Inr (), w3\<lparr>trace := trace w3 @ [Log ERROR (Some e)]\<rparr>)"
          using Inr B r Some F by (simp add: lrclib_simple_file_post_save_v1_0_def act_defs)
        with w3 show ?thesis by simp
      next
        case fr: (Inr pair)
        obtain lyrics is_synced where pair: "pair = (lyrics, is_synced)" by (cases pair) auto
        show ?thesis
        proof (cases "truthy lyrics")
          case False
          then have "lrclib_simple_file_post_save_v1_0 env file w =
              (Inr (), w3\<lparr>trace := trace w3 @ [Log INFO None]\<rparr>)"
            using Inr B r Some F fr pair
            by (simp add: lrclib_simple_file_post_save_v1_0_def act_defs)
          with w3 show ?thesis by simp
        next
          case True
          have "fst ?F = Inr (lyrics, is_synced)" using F fr pair by simp
          from fetch_v1_0_paired [OF this] True obtain b where b: "is_synced = PyBool b" by auto
          from write_sidecar_for_path_summary [of env p lyrics b w3]
          obtain w4 where W: "write_sidecar_for_path env p lyrics (PyBool b) w3 = (Inr (), w4)"
            and w4: "fs w4 = fs w3 \<or> (\<exists>c. fs w4 = (fs w3)(sidecar_path p (PyBool b) \<mapsto> c))"
            by blast
          have "lrclib_simple_file_post_save_v1_0 env file w = (Inr (), w4)"
            using Inr B r Some F fr pair True b W
            by (simp add: lrclib_simple_file_post_save_v1_0_def
                  write_sidecar_for_file_unfold [OF Inr] try_except_def bnd_def lift_def
                  log_msg_def emit_def ret_def)
          with w4 w3 Inr show ?thesis by auto
        qed
      qed
    qed
  qed
qed

lemma worker_for_file_no_query:
  assumes "fst (build_query_from_snapshot env s w) = Inr None"
  shows "worker_for_file env p s w =
           (Inr (), snd (build_query_from_snapshot env s (w\<lparr>trace := trace w @ [Log INFO None]\<rparr>)))"
proof -
  let ?w1 = "w\<lparr>trace := trace w @ [Log INFO None]\<rparr>"
  have "fst (build_query_from_snapshot env s ?w1) = Inr None"
    using assms by (simp add: build_query_from_snapshot_fst)
  then obtain w2 where "build_query_from_snapshot env s ?w1 = (Inr None, w2)"
    by (cases "build_query_from_snapshot env s ?w1") auto
  then show ?thesis
    by (simp add: worker_for_file_def try_except_def bnd_def log_msg_def emit_def ret_def)
qed

section \<open>Properties\<close>

subsection \<open>The query builders\<close>

text \<open>
  \<^bold>\<open>C1\<close> (as amended). For every metadata snapshot, either query builder returns without
  raising, and returns \<open>None\<close> unless the title is non-empty, the artist is non-empty and
  \<^verbatim>\<open>~length\<close> parsed to a duration other than zero; when they are available it returns the
  query with \<open>track_name\<close> the title, \<open>artist_name\<close> the artist, \<open>album_name\<close> the album or
  the empty string, and \<open>duration\<close> the parsed duration. When the builder returns \<open>None\<close>
  the worker does nothing but log: no request is sent and no file is touched. (The second
  builder is given a file whose metadata can be read.)
\<close>

theorem query_requires_title_artist_nonzero_duration:
  "fst (build_query_from_snapshot env snapshot w) =
     Inr (case duration_of (int_max_str_digits env) (snapshot ''~length'') of
            None \<Rightarrow> None
          | Some d \<Rightarrow>
              if truthy_str (snapshot ''title'') \<and> truthy_str (snapshot ''artist'') \<and> d \<noteq> 0
              then Some \<lparr>track_name = or_empty (snapshot ''title''),
                         artist_name = or_empty (snapshot ''artist''),
                         album_name = or_empty (snapshot ''album''),
                         duration = d\<rparr>
              else None)
   \<and> (metadata file = Inr (\<lambda>k. Inr (snapshot k)) \<longrightarrow>
        fst (build_query_from_file env file w) =
          Inr (case duration_of (int_max_str_digits env) (snapshot ''~length'') of
                 None \<Rightarrow> None
               | Some d \<Rightarrow>
                   if truthy_str (snapshot ''title'') \<and> truthy_str (snapshot ''artist'') \<and> d \<noteq> 0
                   then Some \<lparr>track_name = or_empty (snapshot ''title''),
                              artist_name = or_empty (snapshot ''artist''),
                              album_name = or_empty (snapshot ''album''),
                              duration = d\<rparr>
                   else None))
   \<and> (fst (build_query_from_snapshot env snapshot w) = Inr None \<longrightarrow>
        fs (snd (worker_for_file env audio_path snapshot w)) = fs w \<and>
        effects (trace (snd (worker_for_file env audio_path snapshot w))) = effects (trace w))"
proof (intro conjI impI)
  show "fst (build_query_from_snapshot env snapshot w) =
     Inr (case duration_of (int_max_str_digits env) (snapshot ''~length'') of
            None \<Rightarrow> None
          | Some d \<Rightarrow>
              if truthy_str (snapshot ''title'') \<and> truthy_str (snapshot ''artist'') \<and> d \<noteq> 0
              then Some \<lparr>track_name = or_empty (snapshot ''title''),
                         artist_name = or_empty (snapshot ''artist''),
                         album_name = or_empty (snapshot ''album''),
                         duration = d\<rparr>
              else None)"
    by (simp add: build_query_from_snapshot_fst make_query_def split: option.splits)
next
  assume "metadata file = Inr (\<lambda>k. Inr (snapshot k))"
  then show "fst (build_query_from_file env file w) =
          Inr (case duration_of (int_max_str_digits env) (snapshot ''~length'') of
                 None \<Rightarrow> None
               | Some d \<Rightarrow>
                   if truthy_str (snapshot ''title'') \<and> truthy_str (snapshot ''artist'') \<and> d \<noteq> 0
                   then Some \<lparr>track_name = or_empty (snapshot ''title''),
                              artist_name = or_empty (snapshot ''artist''),
                              album_name = or_empty (snapshot ''album''),
                              duration = d\<rparr>
                   else None)"
    by (simp add: build_query_from_file_fst make_query_def split: option.splits)
next
  assume n: "fst (build_query_from_snapshot env snapshot w) = Inr None"
  show "fs (snd (worker_for_file env audio_path snapshot w)) = fs w"
    by (simp add: worker_for_file_no_query [OF n] build_query_from_snapshot_quiet)
  show "effects (trace (snd (worker_for_file env audio_path snapshot w))) = effects (trace w)"
    by (simp add: worker_for_file_no_query [OF n] build_query_from_snapshot_quiet)
qed

text \<open>
  An instance of C1: the file of the example gives the query of the example, and a snapshot
  without a title gives no query and no effect.
\<close>

theorem query_requires_title_artist_nonzero_duration_witness:
  "metadata file_song = Inr (\<lambda>k. Inr (snapshot_xyz k))
   \<and> fst (build_query_from_file (env_online PyNone) file_song world_empty) = Inr (Some query_xyz)
   \<and> fst (build_query_from_snapshot (env_online PyNone)
            (make_snapshot None (Some ''Y'') None (Some ''3:45'')) world_empty) = Inr None
   \<and> effects (trace (snd (worker_for_file (env_online PyNone) ''/music/a/Song.flac''
            (make_snapshot None (Some ''Y'') None (Some ''3:45'')) world_empty))) = []"
  using query_requires_title_artist_nonzero_duration
          [of "env_online PyNone" snapshot_xyz world_empty file_song]
        query_requires_title_artist_nonzero_duration
          [of "env_online PyNone" "make_snapshot None (Some ''Y'') None (Some ''3:45'')"
              world_empty file_song "''/music/a/Song.flac''"]
  by (simp add: eval_defs)

text \<open>
  Against C1 as first stated: \<^verbatim>\<open>"-1:00"\<close> parses to \<open>-60\<close> seconds, a non-positive duration,
  and the builder still returns a query, because the test \<^verbatim>\<open>not (title and artist and
  duration)\<close> only rejects a duration of zero.
\<close>

theorem negative_duration_counterexample:
  "duration_of 4300 (Some ''-1:00'') = Some (- 60)
   \<and> fst (build_query_from_snapshot (env_online PyNone)
            (make_snapshot (Some ''X'') (Some ''Y'') None (Some ''-1:00'')) world_empty) =
       Inr (Some \<lparr>track_name = ''X'', artist_name = ''Y'', album_name = [], duration = - 60\<rparr>)"
  by (simp add: build_query_from_snapshot_fst eval_defs)

text \<open>
  \<^bold>\<open>C2\<close> (as amended). For every length string of the shape \<open>mm:ss\<close> (digits, a colon,
  digits) whose two numerals are within the interpreter's digit limit, the duration is
  exactly minutes times 60 plus seconds. A string yields a duration \<open>d\<close> exactly when it
  consists of two parts around a single colon, each of which \<^verbatim>\<open>int\<close> accepts (white space
  around it, a sign, digits with single underscores), with \<open>d\<close> computed from the two
  values; every other string leaves the duration \<open>None\<close>. No exception leaves either query
  builder (the second one being given a file whose metadata can be read).
\<close>

theorem length_parsing:
  "(mm_ss_shape s \<and> within_digit_limit maxd (minutes_part s)
      \<and> within_digit_limit maxd (seconds_part s) \<longrightarrow>
      duration_of maxd (Some s) =
        Some (int (decimal_value (minutes_part s)) * 60 + int (decimal_value (seconds_part s))))
   \<and> (duration_of maxd (Some s) = Some d \<longleftrightarrow>
        (\<exists>a b m n. s = a @ CHR '':'' # b \<and> CHR '':'' \<notin> set a \<and> CHR '':'' \<notin> set b
           \<and> py_int maxd a = Inr m \<and> py_int maxd b = Inr n \<and> d = m * 60 + n))
   \<and> (\<exists>r. fst (build_query_from_snapshot env snapshot w) = Inr r)
   \<and> (metadata file = Inr (\<lambda>k. Inr (snapshot k)) \<longrightarrow>
        (\<exists>r. fst (build_query_from_file env file w) = Inr r))"
proof (intro conjI impI)
  assume a: "mm_ss_shape s \<and> within_digit_limit maxd (minutes_part s)
      \<and> within_digit_limit maxd (seconds_part s)"
  then have s: "s = minutes_part s @ CHR '':'' # seconds_part s"
    by (simp add: mm_ss_shape_decompose)
  from a have "parse_length maxd (minutes_part s @ CHR '':'' # seconds_part s) =
      Inr (Some (int (decimal_value (minutes_part s)) * 60 + int (decimal_value (seconds_part s))))"
    by (intro parse_length_digits) (simp_all add: mm_ss_shape_def)
  with s have "parse_length maxd s =
      Inr (Some (int (decimal_value (minutes_part s)) * 60 + int (decimal_value (seconds_part s))))"
    by simp
  moreover from s have "s \<noteq> []" by (cases s) auto
  ultimately show "duration_of maxd (Some s) =
        Some (int (decimal_value (minutes_part s)) * 60 + int (decimal_value (seconds_part s)))"
    by (simp add: duration_of_def)
next
  have "duration_of maxd (Some s) = Some d \<longleftrightarrow> parse_length maxd s = Inr (Some d)"
  proof (cases "s = []")
    case True
    then show ?thesis
      by (simp add: duration_of_def parse_length_def)
  next
    case False
    then show ?thesis by (simp add: duration_of_def split: sum.splits)
  qed
  then show "duration_of maxd (Some s) = Some d \<longleftrightarrow>
        (\<exists>a b m n. s = a @ CHR '':'' # b \<and> CHR '':'' \<notin> set a \<and> CHR '':'' \<notin> set b
           \<and> py_int maxd a = Inr m \<and> py_int maxd b = Inr n \<and> d = m * 60 + n)"
    by (simp only: parse_length_some_iff)
next
  show "\<exists>r. fst (build_query_from_snapshot env snapshot w) = Inr r"
    by (simp add: build_query_from_snapshot_fst)
next
  assume "metadata file = Inr (\<lambda>k. Inr (snapshot k))"
  then show "\<exists>r. fst (build_query_from_file env file w) = Inr r"
    by (simp add: build_query_from_file_fst)
qed

text \<open>
  An instance of C2: \<^verbatim>\<open>"3:45"\<close> is 225 seconds, and \<^verbatim>\<open>"abc"\<close>, \<^verbatim>\<open>"1:2:3"\<close> and the empty
  string give no duration.
\<close>

theorem length_parsing_witness:
  "mm_ss_shape ''3:45'' \<and> within_digit_limit 4300 (minutes_part ''3:45'')
   \<and> within_digit_limit 4300 (seconds_part ''3:45'')
   \<and> duration_of 4300 (Some ''3:45'') = Some 225
   \<and> duration_of 4300 (Some ''abc'') = None
   \<and> duration_of 4300 (Some ''1:2:3'') = None
   \<and> duration_of 4300 (Some []) = None
   \<and> metadata file_song = Inr (\<lambda>k. Inr (snapshot_xyz k))
   \<and> (\<exists>r. fst (build_query_from_file (env_online PyNone) file_song world_empty) = Inr r)"
  using length_parsing [of "''3:45''" 4300 225 "env_online PyNone" snapshot_xyz world_empty file_song]
  by (simp add: eval_defs mm_ss_shape_def minutes_part_def seconds_part_def
        within_digit_limit_def)

text \<open>
  Against C2 as first stated: \<^verbatim>\<open>"-1:30"\<close> is not of the shape \<open>mm:ss\<close>, yet it parses, to
  \<open>-30\<close> seconds.
\<close>

theorem signed_length_counterexample:
  "\<not> mm_ss_shape ''-1:30'' \<and> duration_of 4300 (Some ''-1:30'') = Some (- 30)"
  by (simp add: eval_defs mm_ss_shape_def minutes_part_def seconds_part_def)

subsection \<open>The response\<close>

text \<open>
  \<^bold>\<open>C3\<close> (as amended). For every decoded response object with a truthy \<^verbatim>\<open>id\<close>: if
  \<^verbatim>\<open>syncedLyrics\<close> is truthy and has a length (a non-empty string, list or dict), the result
  is that value with \<open>True\<close>, whatever \<^verbatim>\<open>plainLyrics\<close> is; if \<^verbatim>\<open>syncedLyrics\<close> is falsy or
  absent and \<^verbatim>\<open>plainLyrics\<close> is truthy and has a length, the result is \<^verbatim>\<open>plainLyrics\<close> with
  \<open>False\<close>; if both are falsy or absent, the result is \<open>(None, None)\<close>.
\<close>

theorem synced_lyrics_preferred:
  "truthy (dict_get kvs ''id'') \<longrightarrow>
     (truthy (dict_get kvs ''syncedLyrics'') \<and> has_len (dict_get kvs ''syncedLyrics'') \<longrightarrow>
        fst (lyrics_from_decoded (PyDict kvs) w) = Inr (dict_get kvs ''syncedLyrics'', PyBool True))
   \<and> (\<not> truthy (dict_get kvs ''syncedLyrics'') \<and> truthy (dict_get kvs ''plainLyrics'')
        \<and> has_len (dict_get kvs ''plainLyrics'') \<longrightarrow>
        fst (lyrics_from_decoded (PyDict kvs) w) = Inr (dict_get kvs ''plainLyrics'', PyBool False))
   \<and> (\<not> truthy (dict_get kvs ''syncedLyrics'') \<and> \<not> truthy (dict_get kvs ''plainLyrics'') \<longrightarrow>
        fst (lyrics_from_decoded (PyDict kvs) w) = Inr (PyNone, PyNone))"
  by (simp add: lyrics_from_decoded_dict)

text \<open>
  Instances of C3: both fields present, only the plain one, and an empty plain one.
\<close>

theorem synced_lyrics_preferred_witness:
  "fst (lyrics_from_decoded
          (PyDict [(''id'', PyInt 7), (''syncedLyrics'', PyStr ''[00:01.00] la''),
                   (''plainLyrics'', PyStr ''la'')]) world_empty) =
     Inr (PyStr ''[00:01.00] la'', PyBool True)
   \<and> fst (lyrics_from_decoded
          (PyDict [(''id'', PyInt 7), (''syncedLyrics'', PyNone), (''plainLyrics'', PyStr ''la'')])
          world_empty) = Inr (PyStr ''la'', PyBool False)
   \<and> fst (lyrics_from_decoded (PyDict [(''id'', PyInt 7), (''plainLyrics'', PyStr [])])
          world_empty) = Inr (PyNone, PyNone)"
  using synced_lyrics_preferred
          [of "[(''id'', PyInt 7), (''syncedLyrics'', PyStr ''[00:01.00] la''),
                (''plainLyrics'', PyStr ''la'')]" world_empty]
        synced_lyrics_preferred
          [of "[(''id'', PyInt 7), (''syncedLyrics'', PyNone), (''plainLyrics'', PyStr ''la'')]"
              world_empty]
        synced_lyrics_preferred
          [of "[(''id'', PyInt 7), (''plainLyrics'', PyStr [])]" world_empty]
  by (simp add: dict_get_def)

text \<open>
  Against C3 as first stated: with \<^verbatim>\<open>"syncedLyrics": 5\<close> the client neither returns the synced
  nor the plain lyrics nor \<open>(None, None)\<close>: \<^verbatim>\<open>len(5)\<close>, the argument of the log call, raises
  \<open>TypeError\<close>.
\<close>

theorem numeric_lyrics_counterexample:
  "fst (lyrics_from_decoded
          (PyDict [(''id'', PyInt 7), (''syncedLyrics'', PyInt 5), (''plainLyrics'', PyStr ''la'')])
          world_empty) = Inl TypeError"
  by (simp add: lyrics_from_decoded_dict dict_get_def)

text \<open>
  \<^bold>\<open>C4\<close>. For every decoded response body: an empty array gives \<open>(None, None)\<close>; an array
  whose first element is an object is treated as that object, whatever follows it; an array
  whose first element is not an object, a value that is neither an object nor an array, and
  an object without a truthy \<^verbatim>\<open>id\<close> all give \<open>(None, None)\<close>, leaving the world as it was.
  An object with a truthy \<^verbatim>\<open>id\<close>, alone or first in an array, is accepted: its synced
  lyrics, when truthy and sized, are returned with \<open>True\<close>, and otherwise its plain lyrics,
  when truthy and sized, with \<open>False\<close>, after one line of log. In both copies the client
  returns what the decoded body gives, once the request has been answered and the body
  decoded: the lyrics of a single object, and those of the first object of an array.
\<close>

theorem response_shapes:
  "lyrics_from_decoded (PyList []) w = (Inr (PyNone, PyNone), w)
   \<and> lyrics_from_decoded (PyList (PyDict kvs # rest)) w = lyrics_from_decoded (PyDict kvs) w
   \<and> (\<not> is_dict v \<longrightarrow> lyrics_from_decoded (PyList (v # rest)) w = (Inr (PyNone, PyNone), w))
   \<and> (\<not> is_dict v \<and> \<not> is_list v \<longrightarrow> lyrics_from_decoded v w = (Inr (PyNone, PyNone), w))
   \<and> (\<not> truthy (dict_get kvs ''id'') \<longrightarrow>
        lyrics_from_decoded (PyDict kvs) w = (Inr (PyNone, PyNone), w))
   \<and> (urlencode env q = Inr enc \<and> create_unverified_context env = Inr ()
        \<and> transport env (LRCLIB_URL @ enc) 15 = Inr data \<and> decode_json env data = Inr obj \<longrightarrow>
        fst (fetch_lyrics_from_lrclib env q w) = fst (lyrics_from_decoded obj w))
   \<and> (urlencode env q = Inr enc \<and> create_unverified_context env = Inr ()
        \<and> transport env (LRCLIB_URL_v1_0 @ ''?'' @ enc) 10 = Inr data
        \<and> decode_json env data = Inr obj \<longrightarrow>
        fst (fetch_lyrics_from_lrclib_v1_0 env q w) = fst (lyrics_from_decoded obj w))
   \<and> (truthy (dict_get kvs ''id'') \<and> truthy (dict_get kvs ''syncedLyrics'')
        \<and> has_len (dict_get kvs ''syncedLyrics'') \<longrightarrow>
        lyrics_from_decoded (PyDict kvs) w =
          (Inr (dict_get kvs ''syncedLyrics'', PyBool True),
           w\<lparr>trace := trace w @ [Log INFO None]\<rparr>)
        \<and> lyrics_from_decoded (PyList (PyDict kvs # rest)) w =
          (Inr (dict_get kvs ''syncedLyrics'', PyBool True),
           w\<lparr>trace := trace w @ [Log INFO None]\<rparr>))
   \<and> (truthy (dict_get kvs ''id'') \<and> \<not> truthy (dict_get kvs ''syncedLyrics'')
        \<and> truthy (dict_get kvs ''plainLyrics'') \<and> has_len (dict_get kvs ''plainLyrics'') \<longrightarrow>
        lyrics_from_decoded (PyDict kvs) w =
          (Inr (dict_get kvs ''plainLyrics'', PyBool False),
           w\<lparr>trace := trace w @ [Log INFO None]\<rparr>)
        \<and> lyrics_from_decoded (PyList (PyDict kvs # rest)) w =
          (Inr (dict_get kvs ''plainLyrics'', PyBool False),
           w\<lparr>trace := trace w @ [Log INFO None]\<rparr>))
   \<and> (urlencode env q = Inr enc \<and> create_unverified_context env = Inr ()
        \<and> transport env (LRCLIB_URL @ enc) 15 = Inr data \<and> decode_json env data = Inr obj
        \<and> (obj = PyDict kvs \<or> obj = PyList (PyDict kvs # rest))
        \<and> truthy (dict_get kvs ''id'') \<and> truthy (dict_get kvs ''syncedLyrics'')
        \<and> has_len (dict_get kvs ''syncedLyrics'') \<longrightarrow>
        fst (fetch_lyrics_from_lrclib env q w) =
          Inr (dict_get kvs ''syncedLyrics'', PyBool True))
   \<and> (urlencode env q = Inr enc \<and> create_unverified_context env = Inr ()
        \<and> transport env (LRCLIB_URL_v1_0 @ ''?'' @ enc) 10 = Inr data
        \<and> decode_json env data = Inr obj
        \<and> (obj = PyDict kvs \<or> obj = PyList (PyDict kvs # rest))
        \<and> truthy (dict_get kvs ''id'') \<and> truthy (dict_get kvs ''syncedLyrics'')
        \<and> has_len (dict_get kvs ''syncedLyrics'') \<longrightarrow>
        fst (fetch_lyrics_from_lrclib_v1_0 env q w) =
          Inr (dict_get kvs ''syncedLyrics'', PyBool True))
   \<and> (urlencode env q = Inr enc \<and> create_unverified_context env = Inr ()
        \<and> transport env (LRCLIB_URL @ enc) 15 = Inr data \<and> decode_json env data = Inr obj
        \<and> (obj = PyDict kvs \<or> obj = PyList (PyDict kvs # rest))
        \<and> truthy (dict_get kvs ''id'') \<and> \<not> truthy (dict_get kvs ''syncedLyrics'')
        \<and> truthy (dict_get kvs ''plainLyrics'') \<and> has_len (dict_get kvs ''plainLyrics'') \<longrightarrow>
        fst (fetch_lyrics_from_lrclib env q w) =
          Inr (dict_get kvs ''plainLyrics'', PyBool False))
   \<and> (urlencode env q = Inr enc \<and> create_unverified_context env = Inr ()
        \<and> transport env (LRCLIB_URL_v1_0 @ ''?'' @ enc) 10 = Inr data
        \<and> decode_json env data = Inr obj
        \<and> (obj = PyDict kvs \<or> obj = PyList (PyDict kvs # rest))
        \<and> truthy (dict_get kvs ''id'') \<and> \<not> truthy (dict_get kvs ''syncedLyrics'')
        \<and> truthy (dict_get kvs ''plainLyrics'') \<and> has_len (dict_get kvs ''plainLyrics'') \<longrightarrow>
        fst (fetch_lyrics_from_lrclib_v1_0 env q w) =
          Inr (dict_get kvs ''plainLyrics'', PyBool False))"
proof -
  have shapes:
    "lyrics_from_decoded (PyList []) w = (Inr (PyNone, PyNone), w)
     \<and> lyrics_from_decoded (PyList (PyDict kvs # rest)) w = lyrics_from_decoded (PyDict kvs) w
     \<and> (\<not> is_dict v \<longrightarrow> lyrics_from_decoded (PyList (v # rest)) w = (Inr (PyNone, PyNone), w))
     \<and> (\<not> is_dict v \<and> \<not> is_list v \<longrightarrow> lyrics_from_decoded v w = (Inr (PyNone, PyNone), w))
     \<and> (\<not> truthy (dict_get kvs ''id'') \<longrightarrow>
          lyrics_from_decoded (PyDict kvs) w = (Inr (PyNone, PyNone), w))"
    by (simp add: lyrics_from_decoded_list lyrics_from_decoded_dict)
  have client:
    "urlencode env q = Inr enc \<and> create_unverified_context env = Inr ()
        \<and> transport env (LRCLIB_URL @ enc) 15 = Inr data \<and> decode_json env data = Inr obj \<longrightarrow>
        fst (fetch_lyrics_from_lrclib env q w) = fst (lyrics_from_decoded obj w)"
    by (simp add: fetch_fst)
  have client_v1_0:
    "urlencode env q = Inr enc \<and> create_unverified_context env = Inr ()
        \<and> transport env (LRCLIB_URL_v1_0 @ ''?'' @ enc) 10 = Inr data
        \<and> decode_json env data = Inr obj \<longrightarrow>
        fst (fetch_lyrics_from_lrclib_v1_0 env q w) = fst (lyrics_from_decoded obj w)"
    by (simp add: fetch_v1_0_fst)
  have synced:
    "truthy (dict_get kvs ''id'') \<and> truthy (dict_get kvs ''syncedLyrics'')
        \<and> has_len (dict_get kvs ''syncedLyrics'') \<longrightarrow>
        lyrics_from_decoded (PyDict kvs) w =
          (Inr (dict_get kvs ''syncedLyrics'', PyBool True),
           w\<lparr>trace := trace w @ [Log INFO None]\<rparr>)
        \<and> lyrics_from_decoded (PyList (PyDict kvs # rest)) w =
          (Inr (dict_get kvs ''syncedLyrics'', PyBool True),
           w\<lparr>trace := trace w @ [Log INFO None]\<rparr>)"
    by (simp add: lyrics_from_decoded_list lyrics_from_decoded_dict)
  have plain:
    "truthy (dict_get kvs ''id'') \<and> \<not> truthy (dict_get kvs ''syncedLyrics'')
        \<and> truthy (dict_get kvs ''plainLyrics'') \<and> has_len (dict_get kvs ''plainLyrics'') \<longrightarrow>
        lyrics_from_decoded (PyDict kvs) w =
          (Inr (dict_get kvs ''plainLyrics'', PyBool False),
           w\<lparr>trace := trace w @ [Log INFO None]\<rparr>)
        \<and> lyrics_from_decoded (PyList (PyDict kvs # rest)) w =
          (Inr (dict_get kvs ''plainLyrics'', PyBool False),
           w\<lparr>trace := trace w @ [Log INFO None]\<rparr>)"
    by (simp add: lyrics_from_decoded_list lyrics_from_decoded_dict)
  have client_synced:
    "urlencode env q = Inr enc \<and> create_unverified_context env = Inr ()
        \<and> transport env (LRCLIB_URL @ enc) 15 = Inr data \<and> decode_json env data = Inr obj
        \<and> (obj = PyDict kvs \<or> obj = PyList (PyDict kvs # rest))
        \<and> truthy (dict_get kvs ''id'') \<and> truthy (dict_get kvs ''syncedLyrics'')
        \<and> has_len (dict_get kvs ''syncedLyrics'') \<longrightarrow>
        fst (fetch_lyrics_from_lrclib env q w) =
          Inr (dict_get kvs ''syncedLyrics'', PyBool True)"
    using client synced by auto
  have client_v1_0_synced:
    "urlencode env q = Inr enc \<and> create_unverified_context env = Inr ()
        \<and> transport env (LRCLIB_URL_v1_0 @ ''?'' @ enc) 10 = Inr data
        \<and> decode_json env data = Inr obj
        \<and> (obj = PyDict kvs \<or> obj = PyList (PyDict kvs # rest))
        \<and> truthy (dict_get kvs ''id'') \<and> truthy (dict_get kvs ''syncedLyrics'')
        \<and> has_len (dict_get kvs ''syncedLyrics'') \<longrightarrow>
        fst (fetch_lyrics_from_lrclib_v1_0 env q w) =
          Inr (dict_get kvs ''syncedLyrics'', PyBool True)"
    using client_v1_0 synced by auto
  have client_plain:
    "urlencode env q = Inr enc \<and> create_unverified_context env = Inr ()
        \<and> transport env (LRCLIB_URL @ enc) 15 = Inr data \<and> decode_json env data = Inr obj
        \<and> (obj = PyDict kvs \<or> obj = PyList (PyDict kvs # rest))
        \<and> truthy (dict_get kvs ''id'') \<and> \<not> truthy (dict_get kvs ''syncedLyrics'')
        \<and> truthy (dict_get kvs ''plainLyrics'') \<and> has_len (dict_get kvs ''plainLyrics'') \<longrightarrow>
        fst (fetch_lyrics_from_lrclib env q w) =
          Inr (dict_get kvs ''plainLyrics'', PyBool False)"
    using client plain by auto
  have client_v1_0_plain:
    "urlencode env q = Inr enc \<and> create_unverified_context env = Inr ()
        \<and> transport env (LRCLIB_URL_v1_0 @ ''?'' @ enc) 10 = Inr data
        \<and> decode_json env data = Inr obj
        \<and> (obj = PyDict kvs \<or> obj = PyList (PyDict kvs # rest))
        \<and> truthy (dict_get kvs ''id'') \<and> \<not> truthy (dict_get kvs ''syncedLyrics'')
        \<and> truthy (dict_get kvs ''plainLyrics'') \<and> has_len (dict_get kvs ''plainLyrics'') \<longrightarrow>
        fst (fetch_lyrics_from_lrclib_v1_0 env q w) =
          Inr (dict_get kvs ''plainLyrics'', PyBool False)"
    using client_v1_0 plain by auto
  from shapes client client_v1_0 synced plain client_synced client_v1_0_synced
    client_plain client_v1_0_plain
  show ?thesis by blast
qed

text \<open>
  Instances of C4: an array starting with a string, a bare string, an object whose \<^verbatim>\<open>id\<close>
  is 0, an object without \<^verbatim>\<open>id\<close>, a server that answers with an empty array; then a
  single object, an array of two objects, of which the first is used, and an object with
  plain lyrics only, each decoded and as the answer of a server.
\<close>

theorem response_shapes_witness:
  "lyrics_from_decoded (PyList [PyStr ''x'', PyDict [(''id'', PyInt 7)]]) world_empty =
     (Inr (PyNone, PyNone), world_empty)
   \<and> lyrics_from_decoded (PyStr ''x'') world_empty = (Inr (PyNone, PyNone), world_empty)
   \<and> lyrics_from_decoded (PyDict [(''id'', PyInt 0), (''syncedLyrics'', PyStr ''la'')])
        world_empty = (Inr (PyNone, PyNone), world_empty)
   \<and> lyrics_from_decoded (PyDict [(''syncedLyrics'', PyStr ''la'')])
        world_empty = (Inr (PyNone, PyNone), world_empty)
   \<and> fst (fetch_lyrics_from_lrclib (env_online (PyList [])) query_xyz world_empty) =
        Inr (PyNone, PyNone)
   \<and> fst (fetch_lyrics_from_lrclib_v1_0 (env_online (PyList [])) query_xyz world_empty) =
        Inr (PyNone, PyNone)
   \<and> lyrics_from_decoded (PyDict [(''id'', PyInt 7), (''syncedLyrics'', PyStr ''first'')])
        world_empty =
        (Inr (PyStr ''first'', PyBool True), \<lparr>fs = (\<lambda>p. None), trace = [Log INFO None]\<rparr>)
   \<and> lyrics_from_decoded
        (PyList [PyDict [(''id'', PyInt 7), (''syncedLyrics'', PyStr ''first'')],
                 PyDict [(''id'', PyInt 8), (''syncedLyrics'', PyStr ''second'')]])
        world_empty =
        (Inr (PyStr ''first'', PyBool True), \<lparr>fs = (\<lambda>p. None), trace = [Log INFO None]\<rparr>)
   \<and> fst (fetch_lyrics_from_lrclib
        (env_online (PyDict [(''id'', PyInt 7), (''syncedLyrics'', PyStr ''first'')]))
        query_xyz world_empty) = Inr (PyStr ''first'', PyBool True)
   \<and> fst (fetch_lyrics_from_lrclib_v1_0
        (env_online (PyDict [(''id'', PyInt 7), (''syncedLyrics'', PyStr ''first'')]))
        query_xyz world_empty) = Inr (PyStr ''first'', PyBool True)
   \<and> fst (fetch_lyrics_from_lrclib
        (env_online
          (PyList [PyDict [(''id'', PyInt 7), (''syncedLyrics'', PyStr ''first'')],
                   PyDict [(''id'', PyInt 8), (''syncedLyrics'', PyStr ''second'')]]))
        query_xyz world_empty) = Inr (PyStr ''first'', PyBool True)
   \<and> fst (fetch_lyrics_from_lrclib_v1_0
        (env_online
          (PyList [PyDict [(''id'', PyInt 7), (''syncedLyrics'', PyStr ''first'')],
                   PyDict [(''id'', PyInt 8), (''syncedLyrics'', PyStr ''second'')]]))
        query_xyz world_empty) = Inr (PyStr ''first'', PyBool True)
   \<and> lyrics_from_decoded
        (PyList [PyDict [(''id'', PyInt 7), (''syncedLyrics'', PyNone),
                         (''plainLyrics'', PyStr ''words'')]])
        world_empty =
        (Inr (PyStr ''words'', PyBool False), \<lparr>fs = (\<lambda>p. None), trace = [Log INFO None]\<rparr>)
   \<and> fst (fetch_lyrics_from_lrclib
        (env_online
          (PyList [PyDict [(''id'', PyInt 7), (''syncedLyrics'', PyNone),
                           (''plainLyrics'', PyStr ''words'')]]))
        query_xyz world_empty) = Inr (PyStr ''words'', PyBool False)
   \<and> fst (fetch_lyrics_from_lrclib_v1_0
        (env_online
          (PyList [PyDict [(''id'', PyInt 7), (''syncedLyrics'', PyNone),
                           (''plainLyrics'', PyStr ''words'')]]))
        query_xyz world_empty) = Inr (PyStr ''words'', PyBool False)"
  using response_shapes [of world_empty "[(''id'', PyInt 0), (''syncedLyrics'', PyStr ''la'')]"
          "[PyDict [(''id'', PyInt 7)]]" "PyStr ''x''"]
        response_shapes [of world_empty "[(''syncedLyrics'', PyStr ''la'')]" "[]" "PyStr ''x''"
          "env_online (PyList [])" query_xyz
          "''track_name=X&artist_name=Y&album_name=Z&duration=225''" "''{}''" "PyList []"]
        response_shapes [of world_empty "[(''id'', PyInt 7), (''syncedLyrics'', PyStr ''first'')]"
          "[]" "PyStr ''x''"
          "env_online (PyDict [(''id'', PyInt 7), (''syncedLyrics'', PyStr ''first'')])" query_xyz
          "''track_name=X&artist_name=Y&album_name=Z&duration=225''" "''{}''"
          "PyDict [(''id'', PyInt 7), (''syncedLyrics'', PyStr ''first'')]"]
        response_shapes [of world_empty "[(''id'', PyInt 7), (''syncedLyrics'', PyStr ''first'')]"
          "[PyDict [(''id'', PyInt 8), (''syncedLyrics'', PyStr ''second'')]]" "PyStr ''x''"
          "env_online
            (PyList [PyDict [(''id'', PyInt 7), (''syncedLyrics'', PyStr ''first'')],
                     PyDict [(''id'', PyInt 8), (''syncedLyrics'', PyStr ''second'')]])"
          query_xyz
          "''track_name=X&artist_name=Y&album_name=Z&duration=225''" "''{}''"
          "PyList [PyDict [(''id'', PyInt 7), (''syncedLyrics'', PyStr ''first'')],
                   PyDict [(''id'', PyInt 8), (''syncedLyrics'', PyStr ''second'')]]"]
        response_shapes [of world_empty
          "[(''id'', PyInt 7), (''syncedLyrics'', PyNone), (''plainLyrics'', PyStr ''words'')]"
          "[]" "PyStr ''x''"
          "env_online
            (PyList [PyDict [(''id'', PyInt 7), (''syncedLyrics'', PyNone),
                             (''plainLyrics'', PyStr ''words'')]])"
          query_xyz
          "''track_name=X&artist_name=Y&album_name=Z&duration=225''" "''{}''"
          "PyList [PyDict [(''id'', PyInt 7), (''syncedLyrics'', PyNone),
                           (''plainLyrics'', PyStr ''words'')]]"]
  by (simp add: dict_get_def env_online_def transport_def world_empty_def)

subsection \<open>The sidecar\<close>

text \<open>
  \<^bold>\<open>C5\<close>. For every audio file path, every lyrics text and either value of the synced flag,
  when the sidecar can be opened and written, the writer returns normally and leaves the
  file system as it was except that the sidecar path holds exactly the text, whatever stood
  there before; the same holds for the writer that takes the host's file, once its path is
  read. The sidecar path splits into the directory of the audio file and the stem of its
  name followed by \<^verbatim>\<open>.lrc\<close> when synced and by \<^verbatim>\<open>.txt\<close> otherwise.
\<close>

theorem sidecar_written_beside_audio:
  "(open_w env (sidecar_path audio_path (PyBool synced)) = Inr ()
      \<and> write_str env (sidecar_path audio_path (PyBool synced)) text = Inr () \<longrightarrow>
      fst (write_sidecar_for_path env audio_path (PyStr text) (PyBool synced) w) = Inr ()
      \<and> fs (snd (write_sidecar_for_path env audio_path (PyStr text) (PyBool synced) w)) =
          (fs w)(sidecar_path audio_path (PyBool synced) \<mapsto> text))
   \<and> (filename file = Inr audio_path
      \<and> open_w env (sidecar_path audio_path (PyBool synced)) = Inr ()
      \<and> write_str env (sidecar_path audio_path (PyBool synced)) text = Inr () \<longrightarrow>
      fst (write_sidecar_for_file env file (PyStr text) (PyBool synced) w) = Inr ()
      \<and> fs (snd (write_sidecar_for_file env file (PyStr text) (PyBool synced) w)) =
          (fs w)(sidecar_path audio_path (PyBool synced) \<mapsto> text))
   \<and> path_split (sidecar_path audio_path (PyBool synced)) =
       (fst (path_split audio_path),
        fst (splitext (snd (path_split audio_path))) @ (if synced then ''.lrc'' else ''.txt''))"
  by (simp add: write_sidecar_for_file_unfold write_sidecar_for_path_returns
        write_sidecar_for_path_fs written_def sidecar_path_split)

text \<open>
  Instances of C5: synced lyrics for \<^verbatim>\<open>/music/a/Song.flac\<close> replace what
  \<^verbatim>\<open>/music/a/Song.lrc\<close> held, plain lyrics go to \<^verbatim>\<open>/music/a/Song.txt\<close>.
\<close>

theorem sidecar_written_beside_audio_witness:
  "fs (snd (write_sidecar_for_path (env_online PyNone) ''/music/a/Song.flac''
        (PyStr ''[00:01.00] la'') (PyBool True) (world_empty\<lparr>fs := (\<lambda>p. Some ''old'')\<rparr>)))
     ''/music/a/Song.lrc'' = Some ''[00:01.00] la''
   \<and> fs (snd (write_sidecar_for_file (env_online PyNone) file_song
        (PyStr ''la'') (PyBool False) world_empty)) ''/music/a/Song.txt'' = Some ''la''
   \<and> path_split ''/music/a/Song.lrc'' = (''/music/a'', ''Song.lrc'')"
  using sidecar_written_beside_audio
          [of "env_online PyNone" "''/music/a/Song.flac''" True "''[00:01.00] la''"
              "world_empty\<lparr>fs := (\<lambda>p. Some ''old'')\<rparr>" file_song]
        sidecar_written_beside_audio
          [of "env_online PyNone" "''/music/a/Song.flac''" False "''la''" world_empty file_song]
  by (simp add: sidecar_path_song path_split_song env_online_def file_song_def world_empty_def)

subsection \<open>Failures of the client\<close>

text \<open>
  \<^bold>\<open>C6\<close> (as amended). For every lookup query, in both copies: a failure of the request
  (building it, connecting, the timeout, reading the body) and a body that cannot be decoded
  both give \<open>(None, None)\<close>. The client raises only in three cases: \<^verbatim>\<open>urlencode\<close> raised,
  \<^verbatim>\<open>ssl._create_unverified_context\<close> raised, or a \<open>TypeError\<close> (from \<^verbatim>\<open>len\<close> of a lyrics field
  that is truthy but has no length); and in the first two cases it does raise, since both
  calls stand before the first \<^verbatim>\<open>try\<close>.
\<close>

theorem client_degrades_to_not_found:
  "(urlencode env q = Inr enc \<and> create_unverified_context env = Inr ()
      \<and> transport env (LRCLIB_URL @ enc) 15 = Inl e \<longrightarrow>
      fst (fetch_lyrics_from_lrclib env q w) = Inr (PyNone, PyNone))
   \<and> (urlencode env q = Inr enc \<and> create_unverified_context env = Inr ()
      \<and> transport env (LRCLIB_URL @ enc) 15 = Inr data \<and> decode_json env data = Inl e \<longrightarrow>
      fst (fetch_lyrics_from_lrclib env q w) = Inr (PyNone, PyNone))
   \<and> (urlencode env q = Inr enc \<and> create_unverified_context env = Inr ()
      \<and> transport env (LRCLIB_URL_v1_0 @ ''?'' @ enc) 10 = Inl e \<longrightarrow>
      fst (fetch_lyrics_from_lrclib_v1_0 env q w) = Inr (PyNone, PyNone))
   \<and> (urlencode env q = Inr enc \<and> create_unverified_context env = Inr ()
      \<and> transport env (LRCLIB_URL_v1_0 @ ''?'' @ enc) 10 = Inr data
      \<and> decode_json env data = Inl e \<longrightarrow>
      fst (fetch_lyrics_from_lrclib_v1_0 env q w) = Inr (PyNone, PyNone))
   \<and> (fst (fetch_lyrics_from_lrclib env q w) = Inl e \<longrightarrow>
      urlencode env q = Inl e \<or> create_unverified_context env = Inl e \<or> e = TypeError)
   \<and> (fst (fetch_lyrics_from_lrclib_v1_0 env q w) = Inl e \<longrightarrow>
      urlencode env q = Inl e \<or> create_unverified_context env = Inl e \<or> e = TypeError)
   \<and> (urlencode env q = Inl e \<longrightarrow>
      fst (fetch_lyrics_from_lrclib env q w) = Inl e
      \<and> fst (fetch_lyrics_from_lrclib_v1_0 env q w) = Inl e)
   \<and> (urlencode env q = Inr enc \<and> create_unverified_context env = Inl e \<longrightarrow>
      fst (fetch_lyrics_from_lrclib env q w) = Inl e
      \<and> fst (fetch_lyrics_from_lrclib_v1_0 env q w) = Inl e)"
proof -
  have r1: "fst (fetch_lyrics_from_lrclib env q w) = Inl e \<longrightarrow>
      urlencode env q = Inl e \<or> create_unverified_context env = Inl e \<or> e = TypeError"
    using fetch_raises [of env q w e] by blast
  have r2: "fst (fetch_lyrics_from_lrclib_v1_0 env q w) = Inl e \<longrightarrow>
      urlencode env q = Inl e \<or> create_unverified_context env = Inl e \<or> e = TypeError"
    using fetch_v1_0_raises [of env q w e] by blast
  show ?thesis
    by (intro conjI r1 r2) (simp_all add: fetch_fst fetch_v1_0_fst)
qed

text \<open>
  Instances of C6: a timeout and an undecodable body both give \<open>(None, None)\<close>.
\<close>

theorem client_degrades_to_not_found_witness:
  "fst (fetch_lyrics_from_lrclib_v1_0 env_slow query_xyz world_empty) = Inr (PyNone, PyNone)
   \<and> fst (fetch_lyrics_from_lrclib
        ((env_online PyNone)\<lparr>decode_json := (\<lambda>data. Inl JSONDecodeError)\<rparr>)
        query_xyz world_empty) = Inr (PyNone, PyNone)"
  using client_degrades_to_not_found
          [where env = env_slow and q = query_xyz and w = world_empty and e = TimeoutError
             and enc = "''track_name=X&artist_name=Y&album_name=Z&duration=225''"]
        client_degrades_to_not_found
          [where env = "(env_online PyNone)\<lparr>decode_json := (\<lambda>data. Inl JSONDecodeError)\<rparr>"
             and q = query_xyz and w = world_empty and e = JSONDecodeError and data = "''{}''"
             and enc = "''track_name=X&artist_name=Y&album_name=Z&duration=225''"]
  by (simp add: env_slow_def env_online_def transport_def)

text \<open>
  Against C6 as first stated: a failure of the SSL context creation, and a failure of the
  URL construction, are raised to the caller of the client.
\<close>

theorem client_raises_counterexample:
  "fst (fetch_lyrics_from_lrclib
        ((env_online response_synced)\<lparr>create_unverified_context := Inl OSError\<rparr>)
        query_xyz world_empty) = Inl OSError
   \<and> fst (fetch_lyrics_from_lrclib
        ((env_online response_synced)\<lparr>urlencode := (\<lambda>q. Inl UnicodeError)\<rparr>)
        query_xyz world_empty) = Inl UnicodeError"
  by (simp add: fetch_fst env_online_def)

subsection \<open>The two copies\<close>

text \<open>
  \<^bold>\<open>C8\<close> (as amended). For every metadata snapshot, the two query builders return the same
  query or both \<open>None\<close> (the second one reading the same tags from the host's file); the two
  clients request the same URL; and whenever the transport gives the same outcome under a
  timeout of 10 and of 15 seconds, they return the same lyrics result for every response.
\<close>

theorem copies_agree:
  "(metadata file = Inr (\<lambda>k. Inr (snapshot k)) \<longrightarrow>
      fst (build_query_from_file env file w) = fst (build_query_from_snapshot env snapshot w'))
   \<and> LRCLIB_URL @ enc = LRCLIB_URL_v1_0 @ ''?'' @ enc
   \<and> ((\<forall>url. transport env url 15 = transport env url 10) \<longrightarrow>
      fst (fetch_lyrics_from_lrclib env q w) = fst (fetch_lyrics_from_lrclib_v1_0 env q w'))"
proof (intro conjI impI)
  assume "metadata file = Inr (\<lambda>k. Inr (snapshot k))"
  then show "fst (build_query_from_file env file w) = fst (build_query_from_snapshot env snapshot w')"
    by (simp add: build_query_from_file_fst build_query_from_snapshot_fst)
next
  show "LRCLIB_URL @ enc = LRCLIB_URL_v1_0 @ ''?'' @ enc" by (rule same_url)
next
  assume "\<forall>url. transport env url 15 = transport env url 10"
  then have "\<And>enc. transport env (LRCLIB_URL @ enc) 15 =
      transport env (LRCLIB_URL_v1_0 @ ''?'' @ enc) 10"
    by (simp add: LRCLIB_URL_def LRCLIB_URL_v1_0_def)
  then show "fst (fetch_lyrics_from_lrclib env q w) = fst (fetch_lyrics_from_lrclib_v1_0 env q w')"
    using lyrics_from_decoded_fst_indep [of _ w w']
    by (simp add: fetch_fst fetch_v1_0_fst split: sum.splits)
qed

text \<open>
  An instance of C8: on the file and the query of the example both copies agree.
\<close>

theorem copies_agree_witness:
  "fst (build_query_from_file (env_online response_synced) file_song world_empty) =
     fst (build_query_from_snapshot (env_online response_synced) snapshot_xyz world_empty)
   \<and> fst (fetch_lyrics_from_lrclib (env_online response_synced) query_xyz world_empty) =
     fst (fetch_lyrics_from_lrclib_v1_0 (env_online response_synced) query_xyz world_empty)"
  using copies_agree [of file_song snapshot_xyz "env_online response_synced" world_empty
          world_empty _ query_xyz]
  by (simp add: file_song_def env_online_def transport_def)

text \<open>
  Against C8 as first stated: the copies do differ in behaviour. With a server that answers
  after twelve seconds, version 1.1.1 (timeout 15) returns the synced lyrics and version
  1.0.0 (timeout 10) returns \<open>(None, None)\<close>.
\<close>

theorem timeout_differs_counterexample:
  "fst (fetch_lyrics_from_lrclib env_slow query_xyz world_empty) =
      Inr (PyStr ''[00:01.00] la'', PyBool True)
   \<and> fst (fetch_lyrics_from_lrclib_v1_0 env_slow query_xyz world_empty) = Inr (PyNone, PyNone)"
  by (simp add: run_defs)

subsection \<open>Who does the work\<close>

text \<open>
  \<^bold>\<open>C9\<close> (as amended). For every invocation of the save hook of version 1.1.1, the hook
  returns normally, leaves the file system untouched and performs, apart from logging,
  either nothing or exactly one action: starting one daemon thread for the worker. It sends
  no request and opens no file itself. When the path and the tags can be read and the thread
  can be started, that thread is given the path and the snapshot of the four tags. (How long
  the hook takes is outside this model.)
\<close>

theorem hook_hands_work_to_daemon_thread:
  "fst (lrclib_simple_file_post_save env file w) = Inr ()
   \<and> fs (snd (lrclib_simple_file_post_save env file w)) = fs w
   \<and> (effects (trace (snd (lrclib_simple_file_post_save env file w))) = effects (trace w)
      \<or> (\<exists>p s. effects (trace (snd (lrclib_simple_file_post_save env file w))) =
            effects (trace w) @ [ThreadStart p s True]))
   \<and> (filename file = Inr audio_path \<and> read_tags file = Inr snapshot
        \<and> thread_start env = Inr () \<longrightarrow>
      effects (trace (snd (lrclib_simple_file_post_save env file w))) =
        effects (trace w) @ [ThreadStart audio_path snapshot True])"
  by (simp add: post_save_unfold split: sum.splits)

text \<open>
  An instance of C9: for the file of the example the hook starts one daemon thread.
\<close>

theorem hook_hands_work_to_daemon_thread_witness:
  "effects (trace (snd (lrclib_simple_file_post_save (env_online response_synced) file_song
       world_empty))) = [ThreadStart ''/music/a/Song.flac'' snapshot_xyz True]"
  using hook_hands_work_to_daemon_thread
          [of "env_online response_synced" file_song world_empty "''/music/a/Song.flac''"
              snapshot_xyz]
  by (simp add: read_tags_def file_song_def env_online_def world_empty_def snapshot_xyz_def
        make_snapshot_def)

text \<open>
  Against C9 as first stated: the save hook of version 1.0.0 sends the request and writes
  the sidecar itself, on the thread of its caller.
\<close>

theorem hook_v1_0_blocks_counterexample:
  "effects (trace (snd (lrclib_simple_file_post_save_v1_0 (env_online response_synced)
       file_song world_empty))) =
     [HttpGet ''https://lrclib.net/api/get?track_name=X&artist_name=Y&album_name=Z&duration=225'' 10,
      FileOpen ''/music/a/Song.lrc'', FileWrite ''/music/a/Song.lrc'']"
  by (simp add: lrclib_simple_file_post_save_v1_0_def run_defs)

subsection \<open>No exception reaches the host\<close>

text \<open>
  \<^bold>\<open>C7\<close> (as amended). For every file reference and every environment, both save hooks and
  the worker return normally: no exception reaches the host. The hook of version 1.1.1
  leaves the file system untouched; the worker leaves it as it was unless it has sent the
  request and opened the sidecar, and then only the sidecar path has changed; the hook of
  version 1.0.0 leaves it as it was or changes it at the sidecar path alone. An exception
  from reading the path, from reading the metadata or from starting the thread is logged by
  the hook; an exception of \<^verbatim>\<open>int\<close> is logged by the query builder; an exception of the
  transport is logged by the client, which then returns \<open>(None, None)\<close>; whatever the client
  raises is logged by the worker; an exception from opening or writing the sidecar is logged
  by the writer. A failed open leaves no trace on disk. A write that fails after the open
  leaves in the sidecar, which the open has created or emptied, the characters that had
  reached it: a prefix of the lyrics, of the length the environment names, which may be
  empty or the whole text. Lyrics that are not a string are refused before anything is
  written and leave the sidecar empty. In every case the sidecar holds what
  \<^const>\<open>written\<close> gives.
\<close>

theorem hooks_never_raise:
  "fst (lrclib_simple_file_post_save env file w) = Inr ()
   \<and> fst (worker_for_file env audio_path snapshot w) = Inr ()
   \<and> fst (lrclib_simple_file_post_save_v1_0 env file w) = Inr ()
   \<and> fs (snd (lrclib_simple_file_post_save env file w)) = fs w
   \<and> (fs (snd (worker_for_file env audio_path snapshot w)) = fs w
      \<or> (\<exists>u b c rest.
            effects (trace (snd (worker_for_file env audio_path snapshot w))) =
              effects (trace w) @ HttpGet u 15 # FileOpen (sidecar_path audio_path (PyBool b)) # rest
            \<and> fs (snd (worker_for_file env audio_path snapshot w)) =
              (fs w)(sidecar_path audio_path (PyBool b) \<mapsto> c)))
   \<and> (fs (snd (lrclib_simple_file_post_save_v1_0 env file w)) = fs w
      \<or> (\<exists>p b c. filename file = Inr p
            \<and> fs (snd (lrclib_simple_file_post_save_v1_0 env file w)) =
                (fs w)(sidecar_path p (PyBool b) \<mapsto> c)))
   \<and> (filename file = Inl e \<longrightarrow>
        trace (snd (lrclib_simple_file_post_save env file w)) = trace w @ [Log ERROR (Some e)]
        \<and> trace (snd (lrclib_simple_file_post_save_v1_0 env file w)) =
            trace w @ [Log ERROR (Some e)])
   \<and> (filename file = Inr audio_path \<and> read_tags file = Inl e \<longrightarrow>
        trace (snd (lrclib_simple_file_post_save env file w)) = trace w @ [Log ERROR (Some e)])
   \<and> (filename file = Inr audio_path \<and> read_tags file = Inr snapshot
        \<and> thread_start env = Inl e \<longrightarrow>
        trace (snd (lrclib_simple_file_post_save env file w)) =
          trace w @ [Log INFO None, Log ERROR (Some e)])
   \<and> (truthy_str (snapshot ''~length'')
        \<and> parse_length (int_max_str_digits env) (or_empty (snapshot ''~length'')) = Inl e \<longrightarrow>
        Log WARNING (Some e) \<in> set (trace (snd (build_query_from_snapshot env snapshot w))))
   \<and> (transport env url timeout = Inl e \<longrightarrow>
        fst (request_and_decode env url timeout lvl w) = Inr (PyNone, PyNone)
        \<and> Log lvl (Some e) \<in> set (trace (snd (request_and_decode env url timeout lvl w))))
   \<and> (fst (build_query_from_snapshot env snapshot w) = Inr (Some q)
        \<and> fst (fetch_lyrics_from_lrclib env q w) = Inl e \<longrightarrow>
        Log ERROR (Some e) \<in> set (trace (snd (worker_for_file env audio_path snapshot w))))
   \<and> (open_w env (sidecar_path audio_path is_synced) = Inl e \<longrightarrow>
        write_sidecar_for_path env audio_path lyrics is_synced w =
          (Inr (), w\<lparr>trace := trace w @ [Log INFO None, Log ERROR (Some e)]\<rparr>))
   \<and> (open_w env (sidecar_path audio_path is_synced) = Inr ()
        \<and> write_str env (sidecar_path audio_path is_synced) text = Inl (e, n) \<longrightarrow>
        write_sidecar_for_path env audio_path (PyStr text) is_synced w =
          (Inr (), w\<lparr>fs := (fs w)(sidecar_path audio_path is_synced \<mapsto> take n text),
                     trace := trace w @ [Log INFO None,
                       FileOpen (sidecar_path audio_path is_synced), Log ERROR (Some e)]\<rparr>))
   \<and> (open_w env (sidecar_path audio_path is_synced) = Inr ()
        \<and> (\<forall>s. lyrics \<noteq> PyStr s) \<longrightarrow>
        write_sidecar_for_path env audio_path lyrics is_synced w =
          (Inr (), w\<lparr>fs := (fs w)(sidecar_path audio_path is_synced \<mapsto> []),
                     trace := trace w @ [Log INFO None,
                       FileOpen (sidecar_path audio_path is_synced),
                       Log ERROR (Some TypeError)]\<rparr>))
   \<and> (open_w env (sidecar_path audio_path is_synced) = Inr () \<longrightarrow>
        fs (snd (write_sidecar_for_path env audio_path lyrics is_synced w)) =
          (fs w)(sidecar_path audio_path is_synced \<mapsto>
                   written env (sidecar_path audio_path is_synced) lyrics))"
proof (intro conjI)
  show "fst (lrclib_simple_file_post_save env file w) = Inr ()"
    by (simp add: post_save_unfold split: sum.splits)
  show "fst (worker_for_file env audio_path snapshot w) = Inr ()"
    by (rule worker_for_file_returns)
  show "fst (lrclib_simple_file_post_save_v1_0 env file w) = Inr ()"
    by (rule post_save_v1_0_returns)
  show "fs (snd (lrclib_simple_file_post_save env file w)) = fs w"
    by (simp add: post_save_unfold split: sum.splits)
  show "fs (snd (worker_for_file env audio_path snapshot w)) = fs w
      \<or> (\<exists>u b c rest.
            effects (trace (snd (worker_for_file env audio_path snapshot w))) =
              effects (trace w) @ HttpGet u 15 # FileOpen (sidecar_path audio_path (PyBool b)) # rest
            \<and> fs (snd (worker_for_file env audio_path snapshot w)) =
              (fs w)(sidecar_path audio_path (PyBool b) \<mapsto> c))"
    by (rule worker_for_file_fs)
  show "fs (snd (lrclib_simple_file_post_save_v1_0 env file w)) = fs w
      \<or> (\<exists>p b c. filename file = Inr p
            \<and> fs (snd (lrclib_simple_file_post_save_v1_0 env file w)) =
                (fs w)(sidecar_path p (PyBool b) \<mapsto> c))"
    by (rule post_save_v1_0_fs)
  show "filename file = Inl e \<longrightarrow>
        trace (snd (lrclib_simple_file_post_save env file w)) = trace w @ [Log ERROR (Some e)]
        \<and> trace (snd (lrclib_simple_file_post_save_v1_0 env file w)) =
            trace w @ [Log ERROR (Some e)]"
    by (simp add: post_save_unfold lrclib_simple_file_post_save_v1_0_def act_defs)
  show "filename file = Inr audio_path \<and> read_tags file = Inl e \<longrightarrow>
        trace (snd (lrclib_simple_file_post_save env file w)) = trace w @ [Log ERROR (Some e)]"
    by (simp add: post_save_unfold)
  show "filename file = Inr audio_path \<and> read_tags file = Inr snapshot
        \<and> thread_start env = Inl e \<longrightarrow>
        trace (snd (lrclib_simple_file_post_save env file w)) =
          trace w @ [Log INFO None, Log ERROR (Some e)]"
    by (simp add: post_save_unfold)
  show "truthy_str (snapshot ''~length'')
        \<and> parse_length (int_max_str_digits env) (or_empty (snapshot ''~length'')) = Inl e \<longrightarrow>
        Log WARNING (Some e) \<in> set (trace (snd (build_query_from_snapshot env snapshot w)))"
    by (rule build_query_from_snapshot_logs_parse_error)
  show "transport env url timeout = Inl e \<longrightarrow>
        fst (request_and_decode env url timeout lvl w) = Inr (PyNone, PyNone)
        \<and> Log lvl (Some e) \<in> set (trace (snd (request_and_decode env url timeout lvl w)))"
    by (auto simp: request_and_decode_unfold transport_def split: sum.splits)
  show "fst (build_query_from_snapshot env snapshot w) = Inr (Some q)
        \<and> fst (fetch_lyrics_from_lrclib env q w) = Inl e \<longrightarrow>
        Log ERROR (Some e) \<in> set (trace (snd (worker_for_file env audio_path snapshot w)))"
    using worker_for_file_logs_client_error [of env snapshot w q e audio_path] by blast
  show "open_w env (sidecar_path audio_path is_synced) = Inl e \<longrightarrow>
        write_sidecar_for_path env audio_path lyrics is_synced w =
          (Inr (), w\<lparr>trace := trace w @ [Log INFO None, Log ERROR (Some e)]\<rparr>)"
    by (simp add: write_sidecar_for_path_def open_for_writing_def act_defs)
  show "open_w env (sidecar_path audio_path is_synced) = Inr ()
        \<and> write_str env (sidecar_path audio_path is_synced) text = Inl (e, n) \<longrightarrow>
        write_sidecar_for_path env audio_path (PyStr text) is_synced w =
          (Inr (), w\<lparr>fs := (fs w)(sidecar_path audio_path is_synced \<mapsto> take n text),
                     trace := trace w @ [Log INFO None,
                       FileOpen (sidecar_path audio_path is_synced), Log ERROR (Some e)]\<rparr>)"
    by (simp add: write_sidecar_for_path_def open_for_writing_def file_write_def act_defs Let_def)
  show "open_w env (sidecar_path audio_path is_synced) = Inr ()
        \<and> (\<forall>s. lyrics \<noteq> PyStr s) \<longrightarrow>
        write_sidecar_for_path env audio_path lyrics is_synced w =
          (Inr (), w\<lparr>fs := (fs w)(sidecar_path audio_path is_synced \<mapsto> []),
                     trace := trace w @ [Log INFO None,
                       FileOpen (sidecar_path audio_path is_synced),
                       Log ERROR (Some TypeError)]\<rparr>)"
    by (cases lyrics)
       (simp_all add: write_sidecar_for_path_def open_for_writing_def file_write_def act_defs
          Let_def)
  show "open_w env (sidecar_path audio_path is_synced) = Inr () \<longrightarrow>
        fs (snd (write_sidecar_for_path env audio_path lyrics is_synced w)) =
          (fs w)(sidecar_path audio_path is_synced \<mapsto>
                   written env (sidecar_path audio_path is_synced) lyrics)"
    by (simp add: write_sidecar_for_path_fs)
qed

text \<open>
  Instances of C7: a path that cannot be read, a thread that cannot be started, a request
  that times out, a disk that is full after four characters, lyrics that are a list.
\<close>

theorem hooks_never_raise_witness:
  "trace (snd (lrclib_simple_file_post_save (env_online response_synced)
       (file_song\<lparr>filename := Inl OSError\<rparr>) world_empty)) = [Log ERROR (Some OSError)]
   \<and> trace (snd (lrclib_simple_file_post_save
       ((env_online response_synced)\<lparr>thread_start := Inl RuntimeError\<rparr>) file_song world_empty)) =
       [Log INFO None, Log ERROR (Some RuntimeError)]
   \<and> fst (request_and_decode env_slow ''https://lrclib.net/api/get?'' 10 WARNING world_empty) =
       Inr (PyNone, PyNone)
   \<and> fs (snd (write_sidecar_for_path env_disk_full ''/music/a/Song.flac''
       (PyStr ''[00:01.00] la'') (PyBool True) world_with_sidecar)) ''/music/a/Song.lrc'' =
       Some ''[00:''
   \<and> fs (snd (write_sidecar_for_path (env_online response_synced) ''/music/a/Song.flac''
       (PyList [PyStr ''la'']) (PyBool True) world_with_sidecar)) ''/music/a/Song.lrc'' =
       Some []"
  using hooks_never_raise
          [of "env_online response_synced" "file_song\<lparr>filename := Inl OSError\<rparr>" world_empty
              _ _ OSError]
        hooks_never_raise
          [of "(env_online response_synced)\<lparr>thread_start := Inl RuntimeError\<rparr>" file_song
              world_empty "''/music/a/Song.flac''" snapshot_xyz RuntimeError]
        hooks_never_raise
          [of env_slow _ world_empty _ _ TimeoutError "''https://lrclib.net/api/get?''" 10 WARNING]
        hooks_never_raise
          [of env_disk_full _ world_with_sidecar "''/music/a/Song.flac''" _ OSError _ _ _ _
              "PyBool True" _ "''[00:01.00] la''" 4]
        hooks_never_raise
          [of "env_online response_synced" _ world_with_sidecar "''/music/a/Song.flac''" _ _ _ _ _ _
              "PyBool True" "PyList [PyStr ''la'']"]
  by (simp add: read_tags_def file_song_def env_online_def env_slow_def env_disk_full_def
        world_empty_def world_with_sidecar_def snapshot_xyz_def make_snapshot_def
        sidecar_path_song transport_def)

text \<open>
  Against C7 as first stated: a failure can have a visible effect other than a missing
  sidecar. On a disk that fills up the write fails after \<^verbatim>\<open>open(out_path, "w")\<close> has
  emptied the sidecar that was there, and leaves a sidecar cut off after the characters
  that had reached it; and a response whose lyrics are a list makes \<^verbatim>\<open>f.write\<close> raise
  after the sidecar has been created, which leaves an empty file.
\<close>

theorem failed_write_damages_sidecar_counterexample:
  "fs world_with_sidecar ''/music/a/Song.lrc'' = Some ''old lyrics''
   \<and> fs (snd (worker_for_file env_disk_full ''/music/a/Song.flac'' snapshot_xyz
        world_with_sidecar)) ''/music/a/Song.lrc'' = Some ''[00:''
   \<and> Log ERROR (Some OSError) \<in> set (trace (snd (worker_for_file env_disk_full
        ''/music/a/Song.flac'' snapshot_xyz world_with_sidecar)))
   \<and> fs (snd (worker_for_file
        (env_online (PyDict [(''id'', PyInt 7), (''syncedLyrics'', PyList [PyStr ''la''])]))
        ''/music/a/Song.flac'' snapshot_xyz world_empty)) ''/music/a/Song.lrc'' = Some []
   \<and> Log ERROR (Some TypeError) \<in> set (trace (snd (worker_for_file
        (env_online (PyDict [(''id'', PyInt 7), (''syncedLyrics'', PyList [PyStr ''la''])]))
        ''/music/a/Song.flac'' snapshot_xyz world_empty)))"
  by (simp add: worker_for_file_def run_defs)

subsection \<open>The shape of the lyrics result\<close>

text \<open>
  \<^bold>\<open>C10\<close> (as amended). Whenever the lyrics client returns, in either copy, its result is
  \<open>(None, None)\<close> or a pair of a truthy value that has a length (a non-empty string, list or
  dict) and a genuine boolean; the value is a non-empty string whenever both lyrics fields of
  the response are strings or null. Every file the worker opens is the sidecar path for
  \<open>True\<close> or for \<open>False\<close>, which end in \<^verbatim>\<open>.lrc\<close> and in \<^verbatim>\<open>.txt\<close>.
\<close>

theorem fetch_result_paired:
  "(fst (fetch_lyrics_from_lrclib env q w) = Inr (lyrics, is_synced) \<longrightarrow>
      (lyrics = PyNone \<and> is_synced = PyNone) \<or>
      (truthy lyrics \<and> has_len lyrics \<and> (is_synced = PyBool True \<or> is_synced = PyBool False)))
   \<and> (fst (fetch_lyrics_from_lrclib_v1_0 env q w) = Inr (lyrics, is_synced) \<longrightarrow>
      (lyrics = PyNone \<and> is_synced = PyNone) \<or>
      (truthy lyrics \<and> has_len lyrics \<and> (is_synced = PyBool True \<or> is_synced = PyBool False)))
   \<and> (str_or_none (dict_get kvs ''syncedLyrics'') \<and> str_or_none (dict_get kvs ''plainLyrics'')
        \<and> fst (lyrics_from_decoded (PyDict kvs) w) = Inr (lyrics, is_synced)
        \<and> lyrics \<noteq> PyNone \<longrightarrow>
      (\<exists>t. lyrics = PyStr t \<and> t \<noteq> []))
   \<and> (FileOpen x \<in> set (effects (trace (snd (worker_for_file env audio_path snapshot w)))) \<longrightarrow>
      FileOpen x \<in> set (effects (trace w)) \<or> x = sidecar_path audio_path (PyBool True)
      \<or> x = sidecar_path audio_path (PyBool False))
   \<and> (\<exists>stem. sidecar_path audio_path (PyBool True) = stem @ ''.lrc'')
   \<and> (\<exists>stem. sidecar_path audio_path (PyBool False) = stem @ ''.txt'')"
proof (intro conjI)
  show "fst (fetch_lyrics_from_lrclib env q w) = Inr (lyrics, is_synced) \<longrightarrow>
      (lyrics = PyNone \<and> is_synced = PyNone) \<or>
      (truthy lyrics \<and> has_len lyrics \<and> (is_synced = PyBool True \<or> is_synced = PyBool False))"
    using fetch_paired [of env q w lyrics is_synced] by blast
  show "fst (fetch_lyrics_from_lrclib_v1_0 env q w) = Inr (lyrics, is_synced) \<longrightarrow>
      (lyrics = PyNone \<and> is_synced = PyNone) \<or>
      (truthy lyrics \<and> has_len lyrics \<and> (is_synced = PyBool True \<or> is_synced = PyBool False))"
    using fetch_v1_0_paired [of env q w lyrics is_synced] by blast
  show "str_or_none (dict_get kvs ''syncedLyrics'') \<and> str_or_none (dict_get kvs ''plainLyrics'')
        \<and> fst (lyrics_from_decoded (PyDict kvs) w) = Inr (lyrics, is_synced)
        \<and> lyrics \<noteq> PyNone \<longrightarrow>
      (\<exists>t. lyrics = PyStr t \<and> t \<noteq> [])"
    by (cases "dict_get kvs ''syncedLyrics''"; cases "dict_get kvs ''plainLyrics''")
       (auto simp: lyrics_from_decoded_dict split: if_splits)
  show "FileOpen x \<in> set (effects (trace (snd (worker_for_file env audio_path snapshot w)))) \<longrightarrow>
      FileOpen x \<in> set (effects (trace w)) \<or> x = sidecar_path audio_path (PyBool True)
      \<or> x = sidecar_path audio_path (PyBool False)"
    using worker_for_file_opens [of x env audio_path snapshot w] by blast
  show "\<exists>stem. sidecar_path audio_path (PyBool True) = stem @ ''.lrc''"
    using sidecar_path_suffix [of audio_path "PyBool True"] by simp
  show "\<exists>stem. sidecar_path audio_path (PyBool False) = stem @ ''.txt''"
    using sidecar_path_suffix [of audio_path "PyBool False"] by simp
qed

text \<open>
  An instance of C10: synced lyrics as a string, written to \<^verbatim>\<open>/music/a/Song.lrc\<close>.
\<close>

theorem fetch_result_paired_witness:
  "fst (fetch_lyrics_from_lrclib (env_online response_synced) query_xyz world_empty) =
     Inr (PyStr ''[00:01.00] la'', PyBool True)
   \<and> truthy (PyStr ''[00:01.00] la'') \<and> has_len (PyStr ''[00:01.00] la'')
   \<and> FileOpen ''/music/a/Song.lrc'' \<in> set (effects (trace (snd (worker_for_file
        (env_online response_synced) ''/music/a/Song.flac'' snapshot_xyz world_empty))))"
  using fetch_result_paired
          [of "env_online response_synced" query_xyz world_empty "PyStr ''[00:01.00] la''"
              "PyBool True" _ "''/music/a/Song.lrc''" "''/music/a/Song.flac''" snapshot_xyz]
  by (simp add: worker_for_file_def run_defs)

text \<open>
  Against C10 as first stated: for a response with \<^verbatim>\<open>"syncedLyrics": ["la"]\<close> the client
  returns that list, which is not a string, as the lyrics.
\<close>

theorem list_lyrics_counterexample:
  "fst (fetch_lyrics_from_lrclib
        (env_online (PyDict [(''id'', PyInt 7), (''syncedLyrics'', PyList [PyStr ''la''])]))
        query_xyz world_empty) = Inr (PyList [PyStr ''la''], PyBool True)"
  by (simp add: run_defs)

end
